theory Spec2Isabelle
  imports Complex_Main "HOL-Library.Sublist"
begin

section \<open>Python values and exceptions\<close>

text \<open>
  The program (\<^verbatim>\<open>utils.py\<close>, \<^verbatim>\<open>app.py\<close>) reshapes the JSON documents of a football
  statistics service.  A decoded JSON document is a Python value: \<^verbatim>\<open>None\<close>, a bool, an
  int, a str, a list or a dict.  A dict is kept as an association list in insertion order;
  a lookup takes the first binding of the key.  The statistics are counts, so numbers are
  integers; a character of a string stands for one code point.
\<close>

datatype pyval =
    PNone
  | PBool bool
  | PInt int
  | PStr string
  | PList "pyval list"
  | PDict "(pyval \<times> pyval) list"

text \<open>
  Every exception the modelled code can raise is a value.  \<open>RequestError\<close> stands for a
  failure of the HTTP request or of decoding its body, \<open>LibraryError\<close> for an exception
  raised inside an imported library that is handed a value of the wrong type.
\<close>

datatype py_error =
    KeyError
  | IndexError
  | TypeError
  | AttributeError
  | ValueError
  | ZeroDivisionError
  | UnboundLocalError
  | RequestError
  | LibraryError

type_synonym 'a result = "py_error + 'a"

definition ebind :: "'a result \<Rightarrow> ('a \<Rightarrow> 'b result) \<Rightarrow> 'b result" where
  "ebind m f = (case m of Inl e \<Rightarrow> Inl e | Inr v \<Rightarrow> f v)"

text \<open>\<^verbatim>\<open>bool(v)\<close>: what \<^verbatim>\<open>if v:\<close> and \<^verbatim>\<open>if not v:\<close> test.\<close>

fun truthy :: "pyval \<Rightarrow> bool" where
  "truthy PNone = False"
| "truthy (PBool b) = b"
| "truthy (PInt n) = (n \<noteq> 0)"
| "truthy (PStr s) = (s \<noteq> [])"
| "truthy (PList xs) = (xs \<noteq> [])"
| "truthy (PDict kvs) = (kvs \<noteq> [])"

text \<open>
  Keys of a dict are compared by \<^verbatim>\<open>==\<close>, under which \<^verbatim>\<open>True\<close> is \<^verbatim>\<open>1\<close> and
  \<^verbatim>\<open>False\<close> is \<^verbatim>\<open>0\<close>; lists and dicts are not hashable and cannot be keys.
\<close>

fun hash_key :: "pyval \<Rightarrow> pyval" where
  "hash_key (PBool b) = PInt (if b then 1 else 0)"
| "hash_key v = v"

fun hashable :: "pyval \<Rightarrow> bool" where
  "hashable (PList xs) = False"
| "hashable (PDict kvs) = False"
| "hashable v = True"

definition dict_lookup :: "(pyval \<times> pyval) list \<Rightarrow> pyval \<Rightarrow> pyval option" where
  "dict_lookup kvs k = map_of (map (\<lambda>(a, v). (hash_key a, v)) kvs) (hash_key k)"

text \<open>\<^verbatim>\<open>d[k] = v\<close>: a key already present keeps its place and takes the new value.\<close>

fun dict_set :: "(pyval \<times> pyval) list \<Rightarrow> pyval \<Rightarrow> pyval \<Rightarrow> (pyval \<times> pyval) list" where
  "dict_set [] k v = [(k, v)]"
| "dict_set ((a, b) # kvs) k v =
     (if hash_key a = hash_key k then (a, v) # kvs else (a, b) # dict_set kvs k v)"

text \<open>\<^verbatim>\<open>v[k]\<close> for a string key \<open>k\<close>.\<close>

fun getitem :: "pyval \<Rightarrow> string \<Rightarrow> pyval result" where
  "getitem (PDict kvs) k =
     (case dict_lookup kvs (PStr k) of None \<Rightarrow> Inl KeyError | Some v \<Rightarrow> Inr v)"
| "getitem _ k = Inl TypeError"

text \<open>\<^verbatim>\<open>v[i]\<close> for an index \<open>i \<ge> 0\<close>.\<close>

fun getindex :: "pyval \<Rightarrow> nat \<Rightarrow> pyval result" where
  "getindex (PList xs) i = (if i < length xs then Inr (xs ! i) else Inl IndexError)"
| "getindex (PStr s) i = (if i < length s then Inr (PStr [s ! i]) else Inl IndexError)"
| "getindex (PDict kvs) i =
     (case dict_lookup kvs (PInt (int i)) of None \<Rightarrow> Inl KeyError | Some v \<Rightarrow> Inr v)"
| "getindex _ i = Inl TypeError"

text \<open>\<^verbatim>\<open>v.get(k, d)\<close>: only a dict has the method.\<close>

fun dict_get :: "pyval \<Rightarrow> string \<Rightarrow> pyval \<Rightarrow> pyval result" where
  "dict_get (PDict kvs) k d =
     (case dict_lookup kvs (PStr k) of None \<Rightarrow> Inr d | Some v \<Rightarrow> Inr v)"
| "dict_get _ k d = Inl AttributeError"

text \<open>\<^verbatim>\<open>len(v)\<close>.\<close>

fun py_len :: "pyval \<Rightarrow> nat result" where
  "py_len (PList xs) = Inr (length xs)"
| "py_len (PStr s) = Inr (length s)"
| "py_len (PDict kvs) = Inr (length kvs)"
| "py_len _ = Inl TypeError"

text \<open>Iteration over a value, as \<^verbatim>\<open>min\<close> does it: a dict yields its keys.\<close>

fun py_iter :: "pyval \<Rightarrow> pyval list result" where
  "py_iter (PList xs) = Inr xs"
| "py_iter (PDict kvs) = Inr (map fst kvs)"
| "py_iter (PStr s) = Inr (map (\<lambda>c. PStr [c]) s)"
| "py_iter _ = Inl TypeError"

text \<open>\<^verbatim>\<open>k in v\<close> for a string \<open>k\<close>: a key of a dict, an element of a list, a substring.\<close>

fun py_contains :: "pyval \<Rightarrow> string \<Rightarrow> bool result" where
  "py_contains (PDict kvs) k = Inr (dict_lookup kvs (PStr k) \<noteq> None)"
| "py_contains (PList xs) k = Inr (PStr k \<in> set xs)"
| "py_contains (PStr s) k = Inr (list_ex (prefix k) (suffixes s))"
| "py_contains _ k = Inl TypeError"

text \<open>\<^verbatim>\<open>x if x is not None else 0\<close>.\<close>

definition or_zero :: "pyval \<Rightarrow> pyval" where
  "or_zero x = (if x \<noteq> PNone then x else PInt 0)"

text \<open>\<^verbatim>\<open>s.split(sep)\<close> for a one-character separator, and \<^verbatim>\<open>sep.join(ws)\<close>.\<close>

fun py_split :: "char \<Rightarrow> string \<Rightarrow> string list" where
  "py_split sep [] = [[]]"
| "py_split sep (c # cs) =
     (if c = sep then [] # py_split sep cs
      else (case py_split sep cs of [] \<Rightarrow> [[c]] | w # ws \<Rightarrow> (c # w) # ws))"

fun py_join :: "string \<Rightarrow> string list \<Rightarrow> string" where
  "py_join sep [] = []"
| "py_join sep [w] = w"
| "py_join sep (w # ws) = w @ sep @ py_join sep ws"

section \<open>The imported libraries and the remote service\<close>

text \<open>
  \<^verbatim>\<open>Levenshtein.distance\<close>: the least number of insertions, deletions and substitutions
  of single characters that turn one string into the other.
\<close>

fun distance :: "string \<Rightarrow> string \<Rightarrow> nat" where
  "distance [] ys = length ys"
| "distance xs [] = length xs"
| "distance (x # xs) (y # ys) =
     min (min (distance xs (y # ys) + 1) (distance (x # xs) ys + 1))
         (distance xs ys + (if x = y then 0 else 1))"

text \<open>
  What the program does not contain is a parameter of the model: the transliteration table
  of \<^verbatim>\<open>unidecode\<close>, and the answers of the three endpoints of the service.  An endpoint
  answers with the decoded body of the response (\<^verbatim>\<open>response.json()\<close>) or fails; the
  \<^verbatim>\<open>/teams\<close> endpoint is also asked for its status code before its body is decoded.
\<close>

record world =
  unidecode :: "string \<Rightarrow> string"
  players_endpoint :: "string \<Rightarrow> string \<Rightarrow> int \<Rightarrow> pyval result"
  teams_endpoint :: "string \<Rightarrow> string \<Rightarrow> (int \<times> pyval result) result"
  statistics_endpoint :: "pyval \<Rightarrow> string \<Rightarrow> int \<Rightarrow> pyval result"

definition LEAGUE_IDS :: "(string \<times> int) list" where
  "LEAGUE_IDS =
     [(''Premier League'', 39),
      (''Bundesliga'', 78),
      (''La Liga (Spain)'', 140),
      (''Serie A'', 135),
      (''Ligue 1'', 61),
      (''Eredivisie'', 88),
      (''Serie A (Brazil)'', 71),
      (''Primeira Liga'', 94),
      (''Liga MX'', 262),
      (''Premier League (Russia)'', 235)]"

definition invalid_league :: "string \<Rightarrow> string" where
  "invalid_league league_name =
     ''Invalid league name: '' @ league_name @ ''. Please choose from: ''
       @ py_join '', '' (map fst LEAGUE_IDS)"

section \<open>Resolving a player name\<close>

text \<open>
  The key of \<^verbatim>\<open>min\<close> in \<^verbatim>\<open>get_player_stats_from_api\<close>:
  \<^verbatim>\<open>distance(search_name, unidecode(player['player']['name']))\<close>.
\<close>

definition match_key :: "world \<Rightarrow> string \<Rightarrow> pyval \<Rightarrow> nat result" where
  "match_key w search_name player =
     ebind (getitem player ''player'') (\<lambda>p.
     ebind (getitem p ''name'') (\<lambda>n.
       case n of PStr nm \<Rightarrow> Inr (distance search_name (unidecode w nm))
               | _ \<Rightarrow> Inl LibraryError))"

text \<open>
  \<^verbatim>\<open>min(xs, key=f)\<close>: the elements are visited in order, and the element kept is replaced
  only by one whose key is strictly smaller.
\<close>

fun min_scan :: "(pyval \<Rightarrow> nat result) \<Rightarrow> nat \<Rightarrow> pyval \<Rightarrow> pyval list \<Rightarrow> pyval result" where
  "min_scan f k best [] = Inr best"
| "min_scan f k best (x # xs) =
     ebind (f x) (\<lambda>k'. if k' < k then min_scan f k' x xs else min_scan f k best xs)"

fun py_min :: "(pyval \<Rightarrow> nat result) \<Rightarrow> pyval list \<Rightarrow> pyval result" where
  "py_min f [] = Inl ValueError"
| "py_min f (x # xs) = ebind (f x) (\<lambda>k. min_scan f k x xs)"

text \<open>
  A run of the search loop: the search strings sent to the service, in order; the value of
  \<^verbatim>\<open>search_name\<close> when the loop is left; and what the function returns (\<open>PNone\<close> when
  nothing was found) or raises.
\<close>

record search_run =
  requests :: "string list"
  final_search :: string
  returned :: "pyval result"

text \<open>The \<^verbatim>\<open>while len(search_name) > 0\<close> loop.\<close>

fun search_loop :: "world \<Rightarrow> string \<Rightarrow> int \<Rightarrow> string \<Rightarrow> search_run" where
  "search_loop w season league_id [] =
     \<lparr>requests = [], final_search = [], returned = Inr PNone\<rparr>"
| "search_loop w season league_id (c # cs) =
     (let search_name = c # cs in
      case players_endpoint w season search_name league_id of
        Inl e \<Rightarrow> \<lparr>requests = [search_name], final_search = search_name, returned = Inl e\<rparr>
      | Inr response_data \<Rightarrow>
         (case dict_get response_data ''response'' PNone of
            Inl e \<Rightarrow> \<lparr>requests = [search_name], final_search = search_name, returned = Inl e\<rparr>
          | Inr r \<Rightarrow>
              if truthy r then
                \<lparr>requests = [search_name], final_search = search_name,
                 returned =
                   ebind (getitem response_data ''response'') (\<lambda>players_data.
                   ebind (py_iter players_data) (\<lambda>players.
                   py_min (match_key w search_name) players))\<rparr>
              else
                (let rest = search_loop w season league_id cs
                 in rest\<lparr>requests := search_name # requests rest\<rparr>)))"

definition get_player_stats_from_api :: "world \<Rightarrow> string \<Rightarrow> string \<Rightarrow> int \<Rightarrow> search_run" where
  "get_player_stats_from_api w player_name season league_id =
     search_loop w season league_id (unidecode w player_name)"

section \<open>Normalizing a player\<close>

text \<open>\<^verbatim>\<open>stats[a][b]\<close> and \<^verbatim>\<open>stats[a].get(b, None)\<close>.\<close>

definition stat_field :: "pyval \<Rightarrow> string \<Rightarrow> string \<Rightarrow> pyval result" where
  "stat_field stats a b = ebind (getitem stats a) (\<lambda>x. getitem x b)"

definition field_get :: "pyval \<Rightarrow> string \<Rightarrow> string \<Rightarrow> pyval result" where
  "field_get stats a b = ebind (getitem stats a) (\<lambda>x. dict_get x b PNone)"

text \<open>\<^verbatim>\<open>stats = player_data['statistics'][0]\<close>.\<close>

definition first_statistics :: "pyval \<Rightarrow> pyval result" where
  "first_statistics player_data =
     ebind (getitem player_data ''statistics'') (\<lambda>statistics. getindex statistics 0)"

text \<open>
  The second half of \<^verbatim>\<open>get_player_stats\<close>, from \<^verbatim>\<open>player = player_data['player']\<close> to
  the returned dict: the reads in the order of the source, then the two sub-dicts in the
  order their values are evaluated.
\<close>

definition normalize_player :: "pyval \<Rightarrow> pyval result" where
  "normalize_player player_data =
     ebind (getitem player_data ''player'') (\<lambda>player.
     ebind (first_statistics player_data) (\<lambda>stats.
     ebind (stat_field stats ''goals'' ''total'') (\<lambda>total_goals.
     ebind (stat_field stats ''goals'' ''assists'') (\<lambda>assists.
     ebind (stat_field stats ''shots'' ''total'') (\<lambda>total_shots.
     ebind (stat_field stats ''shots'' ''on'') (\<lambda>shots_on_target.
     ebind (stat_field stats ''dribbles'' ''attempts'') (\<lambda>dribbles_attempts.
     ebind (stat_field stats ''dribbles'' ''success'') (\<lambda>dribbles_success.
     ebind (stat_field stats ''passes'' ''key'') (\<lambda>key_passes.
     ebind (field_get stats ''passes'' ''accuracy'') (\<lambda>pass_accuracy.
     ebind (field_get stats ''duels'' ''won'') (\<lambda>duels_won.
     ebind (field_get stats ''tackles'' ''total'') (\<lambda>tackles_total.
     ebind (stat_field stats ''tackles'' ''interceptions'') (\<lambda>tackles_interceptions.
     ebind (stat_field stats ''tackles'' ''blocks'') (\<lambda>tackles_blocks.
     ebind (stat_field stats ''fouls'' ''drawn'') (\<lambda>fouls_drawn.
     ebind (stat_field stats ''fouls'' ''committed'') (\<lambda>fouls_committed.
     ebind (getitem player ''name'') (\<lambda>name.
     ebind (getitem player ''photo'') (\<lambda>photo.
     ebind (stat_field stats ''team'' ''logo'') (\<lambda>team_logo.
     ebind (getitem player ''nationality'') (\<lambda>nationality.
     ebind (stat_field stats ''team'' ''id'') (\<lambda>team_id.
     Inr (PDict
       [(PStr ''Player'', PDict
          [(PStr ''Name'', name),
           (PStr ''Photo'', photo),
           (PStr ''Team Logo'', team_logo),
           (PStr ''Nationality'', nationality),
           (PStr ''Team'', team_id)]),
        (PStr ''Stats'', PDict
          [(PStr ''Goals'', total_goals),
           (PStr ''Assists'', or_zero assists),
           (PStr ''Total Shots'', total_shots),
           (PStr ''Shots on Target'', shots_on_target),
           (PStr ''Dribble Attempts'', dribbles_attempts),
           (PStr ''Dribble Successes'', dribbles_success),
           (PStr ''Key Passes'', key_passes),
           (PStr ''Pass Success Rate'', or_zero pass_accuracy),
           (PStr ''Duels Won'', or_zero duels_won),
           (PStr ''Total Tackles'', or_zero tackles_total),
           (PStr ''Interceptions'', or_zero tackles_interceptions),
           (PStr ''Blocks'', or_zero tackles_blocks),
           (PStr ''Fouls Drawn'', or_zero fouls_drawn),
           (PStr ''Fouls Committed'', or_zero fouls_committed)])])
     )))))))))))))))))))))"

text \<open>
  \<^verbatim>\<open>get_player_stats\<close>.  The names are split at every single space; the first search
  string is \<^verbatim>\<open>first_name + " " + last_name\<close>, the second \<^verbatim>\<open>last_name\<close>.  The result is
  the search strings sent, and the message, the record or the exception of the call.
\<close>

definition no_player_stats :: "string \<Rightarrow> string \<Rightarrow> string" where
  "no_player_stats player_full_name season =
     ''No stats found for '' @ player_full_name @ '' in the '' @ season @ '' season.''"

definition split_name :: "string \<Rightarrow> (string \<times> string) result" where
  "split_name player_full_name =
     (let names = py_split CHR '' '' player_full_name in
      if length names = 1 then Inr ([], names ! 0)
      else if length names \<ge> 2 then Inr (py_join '' '' (butlast names), last names)
      else Inl UnboundLocalError)"

definition get_player_stats ::
  "world \<Rightarrow> string \<Rightarrow> string \<Rightarrow> string \<Rightarrow> string list \<times> pyval result" where
  "get_player_stats w player_full_name season league_name =
     (case map_of LEAGUE_IDS league_name of
        None \<Rightarrow> ([], Inr (PStr (invalid_league league_name)))
      | Some league_id \<Rightarrow>
          if league_id = 0 then ([], Inr (PStr (invalid_league league_name)))
          else
            (case split_name player_full_name of
               Inl e \<Rightarrow> ([], Inl e)
             | Inr (first_name, last_name) \<Rightarrow>
                 (let first_run =
                    get_player_stats_from_api w (first_name @ '' '' @ last_name) season league_id
                  in case returned first_run of
                    Inl e \<Rightarrow> (requests first_run, Inl e)
                  | Inr player_data \<Rightarrow>
                      if player_data \<noteq> PNone
                      then (requests first_run, normalize_player player_data)
                      else
                        (let second_run = get_player_stats_from_api w last_name season league_id;
                             sent = requests first_run @ requests second_run
                         in case returned second_run of
                           Inl e \<Rightarrow> (sent, Inl e)
                         | Inr player_data \<Rightarrow>
                             if player_data = PNone
                             then (sent, Inr (PStr (no_player_stats player_full_name season)))
                             else (sent, normalize_player player_data)))))"

section \<open>Normalizing a team\<close>

text \<open>\<^verbatim>\<open>results > 0\<close>: only numbers compare with a number.\<close>

fun py_positive :: "pyval \<Rightarrow> bool result" where
  "py_positive (PInt n) = Inr (n > 0)"
| "py_positive (PBool b) = Inr b"
| "py_positive _ = Inl TypeError"

definition get_club_id :: "world \<Rightarrow> string \<Rightarrow> string \<Rightarrow> pyval result" where
  "get_club_id w club_name club_country =
     ebind (teams_endpoint w club_name club_country) (\<lambda>(status_code, body).
       if status_code = 200 then
         ebind body (\<lambda>response_json.
         ebind (getitem response_json ''results'') (\<lambda>results.
         ebind (py_positive results) (\<lambda>found.
           if found then
             ebind (getitem response_json ''response'') (\<lambda>r.
             ebind (getindex r 0) (\<lambda>first.
             ebind (getitem first ''team'') (\<lambda>team.
             getitem team ''id'')))
           else Inr PNone)))
       else Inr PNone)"

definition get_club_stats_from_api :: "world \<Rightarrow> pyval \<Rightarrow> string \<Rightarrow> int \<Rightarrow> pyval result" where
  "get_club_stats_from_api w club_id season league_id =
     ebind (statistics_endpoint w club_id season league_id) (\<lambda>response_data.
     ebind (dict_get response_data ''response'' PNone) (\<lambda>r.
       if truthy r then getitem response_data ''response'' else Inr PNone))"

text \<open>
  The straight-line reads of \<^verbatim>\<open>get_team_stats\<close>, in the order of the source: the key of
  the returned \<^verbatim>\<open>"Stats"\<close> dict and the path read from \<^verbatim>\<open>stats\<close>.
\<close>

definition team_stat_paths :: "(string \<times> string list) list" where
  "team_stat_paths =
     [(''Total Games'', [''fixtures'', ''played'', ''total'']),
      (''Total Wins Home'', [''fixtures'', ''wins'', ''home'']),
      (''Total Wins Away'', [''fixtures'', ''wins'', ''away'']),
      (''Total Wins'', [''fixtures'', ''wins'', ''total'']),
      (''Total Draws Home'', [''fixtures'', ''draws'', ''home'']),
      (''Total Draws Away'', [''fixtures'', ''draws'', ''away'']),
      (''Total Draws'', [''fixtures'', ''draws'', ''total'']),
      (''Total Losses Home'', [''fixtures'', ''loses'', ''home'']),
      (''Total Losses Away'', [''fixtures'', ''loses'', ''away'']),
      (''Total Losses'', [''fixtures'', ''loses'', ''total'']),
      (''Club Form'', [''form'']),
      (''Total Home Goals Scored'', [''goals'', ''for'', ''total'', ''home'']),
      (''Total Away Goals Scored'', [''goals'', ''for'', ''total'', ''away'']),
      (''Total Goals Scored'', [''goals'', ''for'', ''total'', ''total'']),
      (''Average Home Goals Scored'', [''goals'', ''for'', ''average'', ''home'']),
      (''Average Away Goals Scored'', [''goals'', ''for'', ''average'', ''away'']),
      (''Average Goals Scored'', [''goals'', ''for'', ''average'', ''total'']),
      (''Total Home Goals Conceded'', [''goals'', ''against'', ''total'', ''home'']),
      (''Total Away Goals Conceded'', [''goals'', ''against'', ''total'', ''away'']),
      (''Total Goals Conceded'', [''goals'', ''against'', ''total'', ''total'']),
      (''Average Home Goals Conceded'', [''goals'', ''against'', ''average'', ''home'']),
      (''Average Away Goals Conceded'', [''goals'', ''against'', ''average'', ''away'']),
      (''Average Goals Conceded'', [''goals'', ''against'', ''average'', ''total'']),
      (''Longest Win Streak'', [''biggest'', ''streak'', ''wins'']),
      (''Longest Draw Streak'', [''biggest'', ''streak'', ''draws'']),
      (''Longest Lose Streak'', [''biggest'', ''streak'', ''loses'']),
      (''Biggest Home Win'', [''biggest'', ''wins'', ''home'']),
      (''Biggest Away Win'', [''biggest'', ''wins'', ''away'']),
      (''Biggest Home Loss'', [''biggest'', ''loses'', ''home'']),
      (''Biggest Away Loss'', [''biggest'', ''loses'', ''away'']),
      (''Total Home Clean Sheets'', [''clean_sheet'', ''home'']),
      (''Total Away Clean Sheets'', [''clean_sheet'', ''away'']),
      (''Total Clean Sheets'', [''clean_sheet'', ''total'']),
      (''Times Failed to Score at Home'', [''failed_to_score'', ''home'']),
      (''Times Failed to Score Away'', [''failed_to_score'', ''away'']),
      (''Total Times Failed to Score'', [''failed_to_score'', ''total''])]"

fun getpath :: "pyval \<Rightarrow> string list \<Rightarrow> pyval result" where
  "getpath v [] = Inr v"
| "getpath v (k # ks) = ebind (getitem v k) (\<lambda>x. getpath x ks)"

fun read_stats :: "pyval \<Rightarrow> (string \<times> string list) list \<Rightarrow> (pyval \<times> pyval) list result" where
  "read_stats stats [] = Inr []"
| "read_stats stats ((label, path) # rest) =
     ebind (getpath stats path) (\<lambda>v.
     ebind (read_stats stats rest) (\<lambda>vs.
     Inr ((PStr label, v) # vs)))"

text \<open>
  The loop \<^verbatim>\<open>for i in range(len(stats['lineups']))\<close>, over the indices still to visit:
  each pass reads \<^verbatim>\<open>stats['lineups'][i]\<close> twice and stores the count under the formation.
\<close>

fun lineup_loop :: "pyval \<Rightarrow> nat list \<Rightarrow> (pyval \<times> pyval) list \<Rightarrow> (pyval \<times> pyval) list result" where
  "lineup_loop stats [] lineup_info = Inr lineup_info"
| "lineup_loop stats (i # rest) lineup_info =
     ebind (ebind (ebind (getitem stats ''lineups'') (\<lambda>ls. getindex ls i))
                  (\<lambda>l. getitem l ''formation'')) (\<lambda>formation_deployed.
     ebind (ebind (ebind (getitem stats ''lineups'') (\<lambda>ls. getindex ls i))
                  (\<lambda>l. getitem l ''played'')) (\<lambda>times_deployed.
     if hashable formation_deployed
     then lineup_loop stats rest (dict_set lineup_info formation_deployed times_deployed)
     else Inl TypeError))"

definition lineups :: "pyval \<Rightarrow> (pyval \<times> pyval) list result" where
  "lineups stats =
     ebind (ebind (getitem stats ''lineups'') py_len) (\<lambda>n. lineup_loop stats [0..<n] [])"

text \<open>
  The second half of \<^verbatim>\<open>get_team_stats\<close>, from \<^verbatim>\<open>club = club_data['team']\<close> to the
  returned dict.
\<close>

definition team_record :: "pyval \<Rightarrow> pyval result" where
  "team_record club_data =
     ebind (getitem club_data ''team'') (\<lambda>club.
     ebind (read_stats club_data team_stat_paths) (\<lambda>fields.
     ebind (lineups club_data) (\<lambda>lineup_info.
     ebind (getitem club ''name'') (\<lambda>name.
     ebind (getitem club ''logo'') (\<lambda>logo.
     Inr (PDict
       [(PStr ''Club'', PDict [(PStr ''Name'', name), (PStr ''Logo'', logo)]),
        (PStr ''Stats'', PDict (fields @ [(PStr ''Lineups'', PDict lineup_info)]))]))))))"

definition no_club :: "string \<Rightarrow> string \<Rightarrow> string" where
  "no_club club_name club_country =
     ''No club found for '' @ club_name @ '' in '' @ club_country @ ''.''"

definition no_team_stats :: "string \<Rightarrow> string \<Rightarrow> string" where
  "no_team_stats club_name season =
     ''No stats found for '' @ club_name @ '' in the '' @ season @ '' season.''"

definition get_team_stats :: "world \<Rightarrow> string \<Rightarrow> string \<Rightarrow> string \<Rightarrow> string \<Rightarrow> pyval result" where
  "get_team_stats w club_name club_country season league_name =
     (case map_of LEAGUE_IDS league_name of
        None \<Rightarrow> Inr (PStr (invalid_league league_name))
      | Some league_id \<Rightarrow>
          if league_id = 0 then Inr (PStr (invalid_league league_name))
          else
            ebind (get_club_id w club_name club_country) (\<lambda>club_id.
              if club_id = PNone then Inr (PStr (no_club club_name club_country))
              else
                ebind (get_club_stats_from_api w club_id season league_id) (\<lambda>club_data.
                ebind (py_contains club_data ''team'') (\<lambda>has_team.
                  if \<not> has_team then Inr (PStr ''Unexpected API response format.'')
                  else if club_data = PNone then Inr (PStr (no_team_stats club_name season))
                  else team_record club_data))))"

section \<open>The performance score\<close>

text \<open>
  \<^verbatim>\<open>calculate_performance\<close> of \<^verbatim>\<open>app.py\<close>.  Arithmetic is defined on numbers only
  (a bool counts as 0 or 1).  Python's \<^verbatim>\<open>/\<close> on two ints is the quotient as a float; the
  model keeps the exact quotient.
\<close>

fun py_number :: "pyval \<Rightarrow> int result" where
  "py_number (PInt n) = Inr n"
| "py_number (PBool b) = Inr (if b then 1 else 0)"
| "py_number _ = Inl TypeError"

definition py_truediv :: "int \<Rightarrow> int \<Rightarrow> rat result" where
  "py_truediv a b = (if b = 0 then Inl ZeroDivisionError else Inr (of_int a / of_int b))"

definition calculate_performance :: "pyval \<Rightarrow> string \<Rightarrow> rat result" where
  "calculate_performance stats_dict season =
     ebind (dict_get stats_dict ''Total Wins'' (PInt 0)) (\<lambda>total_wins.
     ebind (dict_get stats_dict ''Total Losses'' (PInt 0)) (\<lambda>total_losses.
     ebind (dict_get stats_dict ''Total Goals Scored'' (PInt 0)) (\<lambda>total_goals_scored.
     ebind (py_number total_wins) (\<lambda>a.
     ebind (py_number total_losses) (\<lambda>b.
     ebind (py_number total_goals_scored) (\<lambda>c.
     ebind (dict_get stats_dict ''Total Games'' (PInt 1)) (\<lambda>total_games.
     ebind (py_number total_games) (\<lambda>d.
     py_truediv (a - b + c) d))))))))"

section \<open>Statements about runs, and concrete inputs\<close>

subsection \<open>The search loop\<close>

text \<open>
  What \<^verbatim>\<open>response_data.get('response')\<close> evaluates to for one search string: the
  candidate pool the loop tests.
\<close>

definition found :: "world \<Rightarrow> string \<Rightarrow> int \<Rightarrow> string \<Rightarrow> pyval result" where
  "found w season league_id search_name =
     ebind (players_endpoint w season search_name league_id)
           (\<lambda>response_data. dict_get response_data ''response'' PNone)"

text \<open>
  The service answers the search string and the pool is falsy (\<^verbatim>\<open>None\<close>, an empty
  list, ...): the loop drops a character and goes on.
\<close>

definition nothing_found :: "world \<Rightarrow> string \<Rightarrow> int \<Rightarrow> string \<Rightarrow> bool" where
  "nothing_found w season league_id search_name \<longleftrightarrow>
     (case found w season league_id search_name of Inl e \<Rightarrow> False | Inr r \<Rightarrow> \<not> truthy r)"

text \<open>
  The key of \<^verbatim>\<open>min\<close> for a candidate whose display name is \<open>nm\<close>: the edit distance between
  the search string, already transliterated, and the transliterated name.
\<close>

definition name_distance :: "world \<Rightarrow> string \<Rightarrow> string \<Rightarrow> nat" where
  "name_distance w search_name nm = distance search_name (unidecode w nm)"

subsection \<open>Player records\<close>

text \<open>The entry of the \<^verbatim>\<open>"Stats"\<close> dict of a record under a label.\<close>

definition stat :: "pyval \<Rightarrow> string \<Rightarrow> pyval result" where
  "stat out label = getpath out [''Stats'', label]"

text \<open>
  The fourteen labels of the \<^verbatim>\<open>"Stats"\<close> dict, in the order of the returned literal, and
  the eight of them whose value passes through \<^verbatim>\<open>x if x is not None else 0\<close>.
\<close>

definition statistic_names :: "string list" where
  "statistic_names =
     [''Goals'', ''Assists'', ''Total Shots'', ''Shots on Target'', ''Dribble Attempts'',
      ''Dribble Successes'', ''Key Passes'', ''Pass Success Rate'', ''Duels Won'',
      ''Total Tackles'', ''Interceptions'', ''Blocks'', ''Fouls Drawn'', ''Fouls Committed'']"

definition never_null_names :: "string list" where
  "never_null_names =
     [''Assists'', ''Pass Success Rate'', ''Duels Won'', ''Total Tackles'', ''Interceptions'',
      ''Blocks'', ''Fouls Drawn'', ''Fouls Committed'']"

text \<open>
  Labels with the path of the source field, by the way the field reaches the record:
  subscripted and stored as read; subscripted and stored through the test for \<^verbatim>\<open>None\<close>;
  read with \<^verbatim>\<open>.get(key, None)\<close> and stored through the test for \<^verbatim>\<open>None\<close>.
\<close>

definition undefaulted_fields :: "(string \<times> string list) list" where
  "undefaulted_fields =
     [(''Total Shots'', [''shots'', ''total'']),
      (''Shots on Target'', [''shots'', ''on'']),
      (''Dribble Attempts'', [''dribbles'', ''attempts'']),
      (''Dribble Successes'', [''dribbles'', ''success'']),
      (''Key Passes'', [''passes'', ''key''])]"

definition as_read_fields :: "(string \<times> string list) list" where
  "as_read_fields = (''Goals'', [''goals'', ''total'']) # undefaulted_fields"

definition null_defaulted_fields :: "(string \<times> string list) list" where
  "null_defaulted_fields =
     [(''Assists'', [''goals'', ''assists'']),
      (''Interceptions'', [''tackles'', ''interceptions'']),
      (''Fouls Drawn'', [''fouls'', ''drawn'']),
      (''Fouls Committed'', [''fouls'', ''committed''])]"

text \<open>
  All five fields that are subscripted and stored through the test for \<^verbatim>\<open>None\<close>: the
  four above and the blocks.
\<close>

definition subscripted_defaulted_fields :: "(string \<times> string list) list" where
  "subscripted_defaulted_fields = (''Blocks'', [''tackles'', ''blocks'']) # null_defaulted_fields"

definition get_defaulted_fields :: "(string \<times> string \<times> string) list" where
  "get_defaulted_fields =
     [(''Pass Success Rate'', ''passes'', ''accuracy''),
      (''Duels Won'', ''duels'', ''won''),
      (''Total Tackles'', ''tackles'', ''total'')]"

subsection \<open>Lineups\<close>

text \<open>
  An element of \<^verbatim>\<open>stats['lineups']\<close> read as the pair of its formation, which can be a
  dict key, and its count.
\<close>

definition lineup_pair :: "pyval \<Rightarrow> pyval \<times> pyval \<Rightarrow> bool" where
  "lineup_pair l p \<longleftrightarrow>
     getitem l ''formation'' = Inr (fst p) \<and> hashable (fst p) \<and> getitem l ''played'' = Inr (snd p)"

text \<open>
  The reduction as the specification words it: the count of a formation is the count of
  its last occurrence in the list; a formation that does not occur has none.
\<close>

fun last_played :: "(pyval \<times> pyval) list \<Rightarrow> pyval \<Rightarrow> pyval option" where
  "last_played [] k = None"
| "last_played ((formation, played) # later) k =
     (case last_played later k of
        Some v \<Rightarrow> Some v
      | None \<Rightarrow> if hash_key formation = hash_key k then Some played else None)"

subsection \<open>Concrete inputs\<close>

text \<open>A team record with ten wins, two losses, thirty goals and no game played.\<close>

definition zero_games :: pyval where
  "zero_games = PDict
     [(PStr ''Total Wins'', PInt 10),
      (PStr ''Total Losses'', PInt 2),
      (PStr ''Total Goals Scored'', PInt 30),
      (PStr ''Total Games'', PInt 0)]"

text \<open>
  A service that knows every club by the id 33 and has no player and no statistics: every
  other answer is \<^verbatim>\<open>{"response": []}\<close>.  Names are plain ASCII, which \<^verbatim>\<open>unidecode\<close>
  leaves as they are.
\<close>

definition empty_service :: world where
  "empty_service =
     \<lparr>unidecode = (\<lambda>s. s),
      players_endpoint = (\<lambda>season search league_id. Inr (PDict [(PStr ''response'', PList [])])),
      teams_endpoint = (\<lambda>club_name club_country. Inr (200, Inr (PDict
        [(PStr ''results'', PInt 1),
         (PStr ''response'',
            PList [PDict [(PStr ''team'', PDict [(PStr ''id'', PInt 33)])]])]))),
      statistics_endpoint = (\<lambda>club_id season league_id. Inr (PDict [(PStr ''response'', PList [])]))\<rparr>"

text \<open>
  A transliteration of three letters, as \<^verbatim>\<open>unidecode\<close> renders them: sharp s (code point
  223) becomes \<^verbatim>\<open>ss\<close>, e acute (233) becomes \<^verbatim>\<open>e\<close>, u umlaut (252) becomes \<^verbatim>\<open>u\<close>.
\<close>

definition sample_unidecode :: "string \<Rightarrow> string" where
  "sample_unidecode s =
     concat (map (\<lambda>c. if c = CHR 0xDF then ''ss''
                       else if c = CHR 0xE9 then ''e''
                       else if c = CHR 0xFC then ''u''
                       else [c]) s)"

text \<open>A candidate of the players endpoint, cut down to its display name.\<close>

definition named :: "string \<Rightarrow> pyval" where
  "named nm = PDict [(PStr ''player'', PDict [(PStr ''name'', PStr nm)])]"

definition mane_pool :: "pyval list" where
  "mane_pool = [named ''Kane'', named (''Man'' @ [CHR 0xE9]), named ''Mane'']"

text \<open>
  A service whose players endpoint answers the search \<^verbatim>\<open>Mane\<close> with that pool and every
  other search with an empty list.
\<close>

definition sample_service :: world where
  "sample_service =
     \<lparr>unidecode = sample_unidecode,
      players_endpoint = (\<lambda>season search league_id.
        if search = ''Mane'' then Inr (PDict [(PStr ''response'', PList mane_pool)])
        else Inr (PDict [(PStr ''response'', PList [])])),
      teams_endpoint = (\<lambda>club_name club_country. Inl RequestError),
      statistics_endpoint = (\<lambda>club_id season league_id. Inl RequestError)\<rparr>"

text \<open>
  A service whose players endpoint answers the search \<^verbatim>\<open>Mee\<close> with two candidates,
  \<^verbatim>\<open>B. Mee\<close> and \<^verbatim>\<open>Mee\<close>, and every other search with an empty list.
\<close>

definition mee_pool :: "pyval list" where
  "mee_pool = [named ''B. Mee'', named ''Mee'']"

definition mee_service :: world where
  "mee_service =
     \<lparr>unidecode = sample_unidecode,
      players_endpoint = (\<lambda>season search league_id.
        if search = ''Mee'' then Inr (PDict [(PStr ''response'', PList mee_pool)])
        else Inr (PDict [(PStr ''response'', PList [])])),
      teams_endpoint = (\<lambda>club_name club_country. Inl RequestError),
      statistics_endpoint = (\<lambda>club_id season league_id. Inl RequestError)\<rparr>"

text \<open>A JSON object with string keys.\<close>

definition obj :: "(string \<times> pyval) list \<Rightarrow> pyval" where
  "obj kvs = PDict (map (\<lambda>(k, v). (PStr k, v)) kvs)"

text \<open>
  One element of a candidate's \<^verbatim>\<open>statistics\<close> list.  The \<^verbatim>\<open>duels\<close> object has no
  \<^verbatim>\<open>won\<close> key and the total of tackles is null.
\<close>

definition sample_statistics :: "pyval \<Rightarrow> pyval \<Rightarrow> pyval \<Rightarrow> pyval" where
  "sample_statistics goals shots fouls = obj
     [(''team'', obj [(''id'', PInt 50), (''name'', PStr ''Manchester City''),
                      (''logo'', PStr ''teams/50.png'')]),
      (''goals'', goals),
      (''shots'', shots),
      (''dribbles'', obj [(''attempts'', PInt 30), (''success'', PInt 18)]),
      (''passes'', obj [(''total'', PInt 900), (''key'', PInt 70), (''accuracy'', PInt 85)]),
      (''duels'', obj [(''total'', PInt 200)]),
      (''tackles'', obj [(''total'', PNone), (''blocks'', PInt 2), (''interceptions'', PInt 9)]),
      (''fouls'', fouls)]"

definition usual_player :: pyval where
  "usual_player = obj [(''id'', PInt 629), (''name'', PStr ''K. De Bruyne''),
                       (''nationality'', PStr ''Belgium''), (''photo'', PStr ''players/629.png'')]"

definition sample_candidate :: "pyval list \<Rightarrow> pyval" where
  "sample_candidate statistics = obj
     [(''player'', usual_player), (''statistics'', PList statistics)]"

definition usual_goals :: pyval where
  "usual_goals = obj [(''total'', PInt 7), (''assists'', PNone)]"

definition usual_shots :: pyval where
  "usual_shots = obj [(''total'', PInt 50), (''on'', PInt 25)]"

definition usual_fouls :: pyval where
  "usual_fouls = obj [(''drawn'', PNone), (''committed'', PInt 12)]"

definition usual_statistics :: pyval where
  "usual_statistics = sample_statistics usual_goals usual_shots usual_fouls"

definition usual_candidate :: pyval where
  "usual_candidate = sample_candidate [usual_statistics]"



text \<open>A candidate whose total of goals is null, and the record it is normalized to.\<close>

definition goalless_candidate :: pyval where
  "goalless_candidate =
     sample_candidate
       [sample_statistics (obj [(''total'', PNone), (''assists'', PInt 3)]) usual_shots usual_fouls]"

definition goalless_record :: pyval where
  "goalless_record = obj
     [(''Player'', obj
        [(''Name'', PStr ''K. De Bruyne''),
         (''Photo'', PStr ''players/629.png''),
         (''Team Logo'', PStr ''teams/50.png''),
         (''Nationality'', PStr ''Belgium''),
         (''Team'', PInt 50)]),
      (''Stats'', obj
        [(''Goals'', PNone),
         (''Assists'', PInt 3),
         (''Total Shots'', PInt 50),
         (''Shots on Target'', PInt 25),
         (''Dribble Attempts'', PInt 30),
         (''Dribble Successes'', PInt 18),
         (''Key Passes'', PInt 70),
         (''Pass Success Rate'', PInt 85),
         (''Duels Won'', PInt 0),
         (''Total Tackles'', PInt 0),
         (''Interceptions'', PInt 9),
         (''Blocks'', PInt 2),
         (''Fouls Drawn'', PInt 0),
         (''Fouls Committed'', PInt 12)])]"

text \<open>
  A candidate with the same name, photo and nationality, other keys beside them, and a
  second element of \<^verbatim>\<open>statistics\<close> after the usual one.
\<close>

definition other_player :: pyval where
  "other_player = obj [(''name'', PStr ''K. De Bruyne''), (''photo'', PStr ''players/629.png''),
                       (''nationality'', PStr ''Belgium''), (''age'', PInt 32)]"

definition second_statistics :: pyval where
  "second_statistics =
     sample_statistics (obj [(''total'', PInt 1), (''assists'', PInt 1)])
       (obj [(''total'', PInt 4), (''on'', PInt 2)]) usual_fouls"

definition two_season_candidate :: pyval where
  "two_season_candidate = obj
     [(''player'', other_player),
      (''statistics'', PList [usual_statistics, second_statistics])]"

text \<open>The three lineups \<^verbatim>\<open>4-3-3\<close> (10), \<^verbatim>\<open>4-4-2\<close> (5), \<^verbatim>\<open>4-3-3\<close> (3).\<close>

definition lineup :: "string \<Rightarrow> int \<Rightarrow> pyval" where
  "lineup formation played =
     PDict [(PStr ''formation'', PStr formation), (PStr ''played'', PInt played)]"

definition sample_lineups :: "pyval list" where
  "sample_lineups = [lineup ''4-3-3'' 10, lineup ''4-4-2'' 5, lineup ''4-3-3'' 3]"

definition sample_pairs :: "(pyval \<times> pyval) list" where
  "sample_pairs =
     [(PStr ''4-3-3'', PInt 10), (PStr ''4-4-2'', PInt 5), (PStr ''4-3-3'', PInt 3)]"

text \<open>A complete answer of the statistics endpoint with those lineups.\<close>

definition home_away_total :: "pyval \<Rightarrow> pyval \<Rightarrow> pyval \<Rightarrow> pyval" where
  "home_away_total h a t = PDict [(PStr ''home'', h), (PStr ''away'', a), (PStr ''total'', t)]"

definition sample_club :: pyval where
  "sample_club = PDict
     [(PStr ''team'', PDict
         [(PStr ''id'', PInt 33), (PStr ''name'', PStr ''Manchester United''),
          (PStr ''logo'', PStr ''teams/33.png'')]),
      (PStr ''form'', PStr ''WWDLW''),
      (PStr ''fixtures'', PDict
         [(PStr ''played'', home_away_total (PInt 9) (PInt 9) (PInt 18)),
          (PStr ''wins'', home_away_total (PInt 6) (PInt 4) (PInt 10)),
          (PStr ''draws'', home_away_total (PInt 2) (PInt 1) (PInt 3)),
          (PStr ''loses'', home_away_total (PInt 1) (PInt 4) (PInt 5))]),
      (PStr ''goals'', PDict
         [(PStr ''for'', PDict
             [(PStr ''total'', home_away_total (PInt 18) (PInt 12) (PInt 30)),
              (PStr ''average'', home_away_total (PStr ''2.0'') (PStr ''1.3'') (PStr ''1.7''))]),
          (PStr ''against'', PDict
             [(PStr ''total'', home_away_total (PInt 8) (PInt 14) (PInt 22)),
              (PStr ''average'', home_away_total (PStr ''0.9'') (PStr ''1.6'') (PStr ''1.2''))])]),
      (PStr ''biggest'', PDict
         [(PStr ''streak'', PDict
             [(PStr ''wins'', PInt 4), (PStr ''draws'', PInt 1), (PStr ''loses'', PInt 2)]),
          (PStr ''wins'', PDict [(PStr ''home'', PStr ''4-0''), (PStr ''away'', PStr ''0-3'')]),
          (PStr ''loses'', PDict [(PStr ''home'', PStr ''1-3''), (PStr ''away'', PStr ''4-1'')])]),
      (PStr ''clean_sheet'', home_away_total (PInt 4) (PInt 2) (PInt 6)),
      (PStr ''failed_to_score'', home_away_total (PInt 1) (PInt 3) (PInt 4)),
      (PStr ''lineups'', PList sample_lineups)]"

section \<open>Basic facts\<close>

lemma ebind_Inl [simp]: "ebind (Inl e) f = Inl e"
  by (simp add: ebind_def)

lemma ebind_Inr [simp]: "ebind (Inr v) f = f v"
  by (simp add: ebind_def)

lemma ebind_return [simp]: "ebind m Inr = m"
  by (cases m) simp_all

lemma ebind_eq_Inr: "ebind m f = Inr y \<longleftrightarrow> (\<exists>x. m = Inr x \<and> f x = Inr y)"
  by (cases m) simp_all

lemma hash_key_eq_PStr [simp]: "hash_key a = PStr k \<longleftrightarrow> a = PStr k"
  by (cases a) auto

lemma PStr_eq_hash_key [simp]: "PStr k = hash_key a \<longleftrightarrow> a = PStr k"
  by (cases a) auto

lemma dict_lookup_str: "dict_lookup kvs (PStr k) = map_of kvs (PStr k)"
  by (induction kvs) (auto simp: dict_lookup_def)

lemma dict_lookup_Nil [simp]: "dict_lookup [] k = None"
  by (simp add: dict_lookup_def)

lemma dict_lookup_Cons:
  "dict_lookup ((a, v) # kvs) k = (if hash_key a = hash_key k then Some v else dict_lookup kvs k)"
  by (auto simp: dict_lookup_def)

lemma dict_lookup_append:
  "dict_lookup (xs @ ys) k =
     (case dict_lookup xs k of None \<Rightarrow> dict_lookup ys k | Some v \<Rightarrow> Some v)"
  by (simp add: dict_lookup_def map_add_def split: option.splits)

lemma dict_lookup_dict_set:
  "dict_lookup (dict_set d f t) k = (if hash_key f = hash_key k then Some t else dict_lookup d k)"
  by (induction d f t rule: dict_set.induct) (auto simp: dict_lookup_Cons)

lemma dict_get_truthy:
  assumes "dict_get rd k PNone = Inr r" and "truthy r"
  shows "getitem rd k = Inr r"
  using assms by (cases rd) (auto split: option.splits)

lemma stat_field_getpath: "stat_field stats a b = getpath stats [a, b]"
  by (cases "getitem stats a") (simp_all add: stat_field_def)

section \<open>The performance score\<close>

text \<open>
  Claim C1.  The performance score is meant to be
  \<open>(wins - losses + goals) / max(games, 1)\<close>, so that a record with ten wins, two
  losses, thirty goals and no game scores 38.  The code divides by the stored number of
  games whenever the key is there; the default 1 only stands in for a missing key.  On
  that record the division by zero is raised.
\<close>

theorem calculate_performance_zero_games:
  "calculate_performance zero_games ''2023'' = Inl ZeroDivisionError"
  by (simp add: calculate_performance_def zero_games_def dict_lookup_str py_truediv_def)

section \<open>The search loop\<close>

text \<open>One pass of the loop over a non-empty search string, by what the service found.\<close>

lemma search_loop_empty_step:
  assumes "found w season lg (c # cs) = Inr r" and "\<not> truthy r"
  shows "search_loop w season lg (c # cs) =
           (search_loop w season lg cs)\<lparr>requests := (c # cs) # requests (search_loop w season lg cs)\<rparr>"
  using assms by (auto simp: found_def ebind_eq_Inr Let_def)

lemma search_loop_found_step:
  assumes "found w season lg (c # cs) = Inr r" and "truthy r"
  shows "search_loop w season lg (c # cs) =
           \<lparr>requests = [c # cs], final_search = c # cs,
            returned = ebind (py_iter r) (py_min (match_key w (c # cs)))\<rparr>"
  using assms dict_get_truthy by (auto simp: found_def ebind_eq_Inr Let_def)

lemma drops_Cons:
  "map (\<lambda>n. drop n (c # cs)) [0..<Suc (length cs)] = (c # cs) # map (\<lambda>n. drop n cs) [0..<length cs]"
  by (simp add: upt_conv_Cons map_Suc_upt[symmetric] del: upt_Suc)

lemma all_suffixes_iff:
  "(\<forall>n<length s. P (drop n s)) \<longleftrightarrow> list_all P (map (\<lambda>n. drop n s) [0..<length s])"
  by (auto simp: list_all_iff)

text \<open>The whole run when no suffix of the search string finds anything.\<close>

lemma search_loop_nothing_found:
  assumes "\<forall>n<length s. nothing_found w season lg (drop n s)"
  shows "search_loop w season lg s =
           \<lparr>requests = map (\<lambda>n. drop n s) [0..<length s], final_search = [], returned = Inr PNone\<rparr>"
  using assms
proof (induction s)
  case Nil
  then show ?case by simp
next
  case (Cons c cs)
  from Cons.prems have "nothing_found w season lg (c # cs)" by force
  then obtain r where r: "found w season lg (c # cs) = Inr r" "\<not> truthy r"
    by (auto simp: nothing_found_def split: sum.splits)
  have "\<forall>n<length cs. nothing_found w season lg (drop n cs)"
    using Cons.prems by force
  from Cons.IH[OF this] search_loop_empty_step[OF r] show ?case
    by (simp add: drops_Cons del: upt_Suc search_loop.simps)
qed

text \<open>Characters dropped before the first search string that finds something.\<close>

lemma search_loop_skipped:
  assumes "\<forall>n<length skipped. nothing_found w season lg (drop n (skipped @ s))"
  shows "returned (search_loop w season lg (skipped @ s)) = returned (search_loop w season lg s)"
  using assms
proof (induction skipped)
  case Nil
  then show ?case by simp
next
  case (Cons c cs)
  from Cons.prems have "nothing_found w season lg (c # cs @ s)" by force
  then obtain r where r: "found w season lg (c # cs @ s) = Inr r" "\<not> truthy r"
    by (auto simp: nothing_found_def split: sum.splits)
  have "\<forall>n<length cs. nothing_found w season lg (drop n (cs @ s))"
    using Cons.prems by force
  from Cons.IH[OF this] search_loop_empty_step[OF r] show ?case
    by (simp del: search_loop.simps)
qed

text \<open>
  \<^verbatim>\<open>min\<close> with a key: the scan that has \<open>b\<close> with key \<open>k\<close> in hand returns an element whose
  key is least, and every element before it has a greater key.
\<close>

lemma min_scan_first_least:
  assumes "list_all2 (\<lambda>x k. f x = Inr k) xs ks"
  shows "\<exists>i<Suc (length xs). min_scan f k b xs = Inr ((b # xs) ! i) \<and>
           (\<forall>j<Suc (length xs). (k # ks) ! i \<le> (k # ks) ! j) \<and>
           (\<forall>j<i. (k # ks) ! i < (k # ks) ! j)"
  using assms
proof (induction xs ks arbitrary: k b rule: list_all2_induct)
  case Nil
  then show ?case by simp
next
  case (Cons x xs k' ks)
  show ?case
  proof (cases "k' < k")
    case True
    from Cons.IH[of k' x] obtain i where i: "i < Suc (length xs)"
      "min_scan f k' x xs = Inr ((x # xs) ! i)"
      "\<forall>j<Suc (length xs). (k' # ks) ! i \<le> (k' # ks) ! j"
      "\<forall>j<i. (k' # ks) ! i < (k' # ks) ! j" by blast
    from i(3) have le: "(k' # ks) ! i \<le> k'" by force
    have "min_scan f k b (x # xs) = Inr ((b # x # xs) ! Suc i)"
      using Cons.hyps(1) True i(2) by simp
    moreover have "\<forall>j<Suc (length (x # xs)). (k # k' # ks) ! Suc i \<le> (k # k' # ks) ! j"
      using i(3) le True by (auto simp: less_Suc_eq_0_disj)
    moreover have "\<forall>j<Suc i. (k # k' # ks) ! Suc i < (k # k' # ks) ! j"
      using i(4) le True by (auto simp: less_Suc_eq_0_disj)
    ultimately show ?thesis using i(1) by (intro exI[of _ "Suc i"]) simp
  next
    case False
    from Cons.IH[of k b] obtain i where i: "i < Suc (length xs)"
      "min_scan f k b xs = Inr ((b # xs) ! i)"
      "\<forall>j<Suc (length xs). (k # ks) ! i \<le> (k # ks) ! j"
      "\<forall>j<i. (k # ks) ! i < (k # ks) ! j" by blast
    from i(3) have le: "(k # ks) ! i \<le> k" by force
    show ?thesis
    proof (cases i)
      case 0
      have "min_scan f k b (x # xs) = Inr ((b # x # xs) ! 0)"
        using Cons.hyps(1) False i(2) 0 by simp
      moreover have "\<forall>j<Suc (length (x # xs)). (k # k' # ks) ! 0 \<le> (k # k' # ks) ! j"
        using i(3) 0 False by (auto simp: less_Suc_eq_0_disj)
      ultimately show ?thesis by (intro exI[of _ 0]) simp
    next
      case (Suc m)
      have "min_scan f k b (x # xs) = Inr ((b # x # xs) ! Suc i)"
        using Cons.hyps(1) False i(2) Suc by simp
      moreover have "\<forall>j<Suc (length (x # xs)). (k # k' # ks) ! Suc i \<le> (k # k' # ks) ! j"
        using i(3) le Suc False by (auto simp: less_Suc_eq_0_disj)
      moreover have "\<forall>j<Suc i. (k # k' # ks) ! Suc i < (k # k' # ks) ! j"
        using i(4) i(3) le Suc False by (auto simp: less_Suc_eq_0_disj)
      ultimately show ?thesis using i(1) by (intro exI[of _ "Suc i"]) simp
    qed
  qed
qed

lemma py_min_first_least:
  assumes "list_all2 (\<lambda>x k. f x = Inr k) xs ks" and "xs \<noteq> []"
  shows "\<exists>i<length xs. py_min f xs = Inr (xs ! i) \<and>
           (\<forall>j<length xs. ks ! i \<le> ks ! j) \<and> (\<forall>j<i. ks ! i < ks ! j)"
proof -
  from assms obtain x xs' k ks' where eq: "xs = x # xs'" "ks = k # ks'"
    "f x = Inr k" "list_all2 (\<lambda>x k. f x = Inr k) xs' ks'"
    by (cases xs; cases ks) auto
  from min_scan_first_least[OF eq(4), of k x] show ?thesis
    using eq by simp
qed

lemma match_key_named:
  assumes "getpath c [''player'', ''name''] = Inr (PStr nm)"
  shows "match_key w s c = Inr (name_distance w s nm)"
  using assms by (auto simp: match_key_def name_distance_def ebind_eq_Inr)

text \<open>
  Claim C3.  Let the transliterated query be \<open>skipped @ search_name\<close>, where every search
  string that still holds a character of \<open>skipped\<close> finds nothing and \<open>search_name\<close> is the
  first one for which the service returns a non-empty list of candidates, each with a
  display name.  Then the resolver returns a candidate of that list whose transliterated
  name is at the least edit distance from \<open>search_name\<close>, the search string that found the
  list (both sides transliterated, so an accented spelling and a plain one are at
  distance 0), and every candidate before it in the order of the response is at a
  strictly greater distance: among the nearest, the first one is returned.  The distance
  is taken from the trimmed search string, which is the query only when nothing was
  trimmed.
\<close>

theorem resolver_returns_first_nearest:
  assumes "unidecode w player_name = skipped @ search_name"
    and "\<forall>n<length skipped. nothing_found w season league_id (drop n (skipped @ search_name))"
    and "search_name \<noteq> []"
    and "found w season league_id search_name = Inr (PList candidates)"
    and "candidates \<noteq> []"
    and "list_all2 (\<lambda>c nm. getpath c [''player'', ''name''] = Inr (PStr nm)) candidates names"
  shows "\<exists>i<length candidates.
           returned (get_player_stats_from_api w player_name season league_id)
             = Inr (candidates ! i) \<and>
           (\<forall>j<length candidates.
              name_distance w search_name (names ! i) \<le> name_distance w search_name (names ! j)) \<and>
           (\<forall>j<i.
              name_distance w search_name (names ! i) < name_distance w search_name (names ! j))"
proof -
  let ?ks = "map (name_distance w search_name) names"
  obtain c cs where s: "search_name = c # cs"
    using assms(3) by (cases search_name) auto
  have len: "length names = length candidates"
    using assms(6) by (simp add: list_all2_lengthD)
  have keys: "list_all2 (\<lambda>x k. match_key w search_name x = Inr k) candidates ?ks"
    using assms(6) by (simp add: list_all2_conv_all_nth match_key_named)
  have "returned (get_player_stats_from_api w player_name season league_id)
          = returned (search_loop w season league_id search_name)"
    using search_loop_skipped[OF assms(2)] by (simp add: get_player_stats_from_api_def assms(1))
  also have "\<dots> = py_min (match_key w search_name) candidates"
    using search_loop_found_step[of w season league_id c cs "PList candidates"] assms(4,5)
    unfolding s by simp
  finally have r: "returned (get_player_stats_from_api w player_name season league_id)
          = py_min (match_key w search_name) candidates" .
  from py_min_first_least[OF keys assms(5)] obtain i where
    i: "i < length candidates" "py_min (match_key w search_name) candidates = Inr (candidates ! i)"
       "\<forall>j<length candidates. ?ks ! i \<le> ?ks ! j" "\<forall>j<i. ?ks ! i < ?ks ! j"
    by blast
  show ?thesis
    using i len r by (intro exI[of _ i]) simp
qed

text \<open>
  A query of a space and the name Mane spelt with an e acute is transliterated to
  \<^verbatim>\<open>" Mane"\<close>, which finds nothing; \<^verbatim>\<open>"Mane"\<close> finds three candidates: Kane, Mane
  spelt with an e acute, and Mane, at the distances 1, 0 and 0.  The second candidate is
  returned: the accented name matches, and it comes before the other candidate at
  distance 0.
\<close>

theorem resolver_returns_first_nearest_witness:
  "unidecode sample_service ('' Man'' @ [CHR 0xE9]) = '' '' @ ''Mane'' \<and>
   nothing_found sample_service ''2023'' 39 '' Mane'' \<and>
   found sample_service ''2023'' 39 ''Mane'' = Inr (PList mane_pool) \<and>
   list_all2 (\<lambda>c nm. getpath c [''player'', ''name''] = Inr (PStr nm)) mane_pool
     [''Kane'', ''Man'' @ [CHR 0xE9], ''Mane''] \<and>
   map (name_distance sample_service ''Mane'') [''Kane'', ''Man'' @ [CHR 0xE9], ''Mane''] = [1, 0, 0] \<and>
   returned (get_player_stats_from_api sample_service ('' Man'' @ [CHR 0xE9]) ''2023'' 39)
     = Inr (mane_pool ! 1)"
proof -
  let ?names = "[''Kane'', ''Man'' @ [CHR 0xE9], ''Mane'']"
  have h1: "unidecode sample_service ('' Man'' @ [CHR 0xE9]) = '' '' @ ''Mane''"
    by code_simp
  have h2': "nothing_found sample_service ''2023'' 39 '' Mane''"
    by code_simp
  then have h2: "\<forall>n<length '' ''. nothing_found sample_service ''2023'' 39 (drop n ('' '' @ ''Mane''))"
    by simp
  have h3: "''Mane'' \<noteq> []" by simp
  have h4: "found sample_service ''2023'' 39 ''Mane'' = Inr (PList mane_pool)"
    by code_simp
  have h5: "mane_pool \<noteq> []" by code_simp
  have h6: "list_all2 (\<lambda>c nm. getpath c [''player'', ''name''] = Inr (PStr nm)) mane_pool ?names"
    by code_simp
  have d: "map (name_distance sample_service ''Mane'') ?names = [1, 0, 0]"
    by code_simp
  from resolver_returns_first_nearest[OF h1 h2 h3 h4 h5 h6] obtain i where
    i: "i < length mane_pool"
       "returned (get_player_stats_from_api sample_service ('' Man'' @ [CHR 0xE9]) ''2023'' 39)
          = Inr (mane_pool ! i)"
       "\<forall>j<length mane_pool. name_distance sample_service ''Mane'' (?names ! i)
             \<le> name_distance sample_service ''Mane'' (?names ! j)"
       "\<forall>j<i. name_distance sample_service ''Mane'' (?names ! i)
             < name_distance sample_service ''Mane'' (?names ! j)"
    by blast
  have l: "length mane_pool = 3" by code_simp
  have d0: "name_distance sample_service ''Mane'' (?names ! 0) = 1"
    and d1: "name_distance sample_service ''Mane'' (?names ! 1) = 0"
    and d2: "name_distance sample_service ''Mane'' (?names ! 2) = 0"
    using d by simp_all
  have "i = 1"
  proof -
    from i(1) l consider "i = 0" | "i = 1" | "i = 2" by linarith
    then show ?thesis
    proof cases
      case 1
      from i(3)[rule_format, of 1] l 1 have "name_distance sample_service ''Mane'' (?names ! 0)
             \<le> name_distance sample_service ''Mane'' (?names ! 1)" by simp
      with d0 d1 show ?thesis by simp
    next
      case 2
      then show ?thesis .
    next
      case 3
      from i(4)[rule_format, of 1] 3 have "name_distance sample_service ''Mane'' (?names ! 2)
             < name_distance sample_service ''Mane'' (?names ! 1)" by simp
      with d1 d2 show ?thesis by simp
    qed
  qed
  with i(2) h1 h2' h4 h6 d show ?thesis by simp
qed

text \<open>
  The query \<^verbatim>\<open>Ben Mee\<close> finds nothing until it is trimmed to \<^verbatim>\<open>Mee\<close>, which finds
  \<^verbatim>\<open>B. Mee\<close> and \<^verbatim>\<open>Mee\<close>.  The resolver returns \<^verbatim>\<open>Mee\<close>, at distance 0 from the
  trimmed search string and 4 from the query, and not \<^verbatim>\<open>B. Mee\<close>, at distance 2 from the
  query.
\<close>

theorem nearest_to_trimmed_search_not_to_query:
  "returned (get_player_stats_from_api mee_service ''Ben Mee'' ''2023'' 39)
     = Inr (named ''Mee'') \<and>
   found mee_service ''2023'' 39 ''Mee'' = Inr (PList [named ''B. Mee'', named ''Mee'']) \<and>
   name_distance mee_service (unidecode mee_service ''Ben Mee'') ''B. Mee'' = 2 \<and>
   name_distance mee_service (unidecode mee_service ''Ben Mee'') ''Mee'' = 4 \<and>
   name_distance mee_service ''Mee'' ''B. Mee'' = 3 \<and>
   name_distance mee_service ''Mee'' ''Mee'' = 0"
  by code_simp

text \<open>
  Claim C4.  When no search string finds anything, the loop ends and the resolver returns
  \<^verbatim>\<open>None\<close> with an empty final search string.  It has then sent one request for each
  character of the transliterated query, the \<open>n\<close>-th for the transliterated query without
  its first \<open>n\<close> characters: the number of passes is the length of \<^verbatim>\<open>unidecode(player_name)\<close>,
  which is not always the length of the query.
\<close>

theorem not_found_after_every_suffix:
  assumes "\<forall>n<length (unidecode w player_name).
             nothing_found w season league_id (drop n (unidecode w player_name))"
  shows "returned (get_player_stats_from_api w player_name season league_id) = Inr PNone \<and>
         final_search (get_player_stats_from_api w player_name season league_id) = [] \<and>
         length (requests (get_player_stats_from_api w player_name season league_id))
           = length (unidecode w player_name) \<and>
         (\<forall>n<length (unidecode w player_name).
            requests (get_player_stats_from_api w player_name season league_id) ! n
              = drop n (unidecode w player_name))"
  using search_loop_nothing_found[OF assms]
  by (simp add: get_player_stats_from_api_def del: upt_Suc)

text \<open>The query \<^verbatim>\<open>Kane\<close>, of four characters, is searched four times.\<close>

theorem not_found_after_every_suffix_witness:
  "list_all (nothing_found sample_service ''2023'' 39) [''Kane'', ''ane'', ''ne'', ''e''] \<and>
   returned (get_player_stats_from_api sample_service ''Kane'' ''2023'' 39) = Inr PNone \<and>
   final_search (get_player_stats_from_api sample_service ''Kane'' ''2023'' 39) = [] \<and>
   requests (get_player_stats_from_api sample_service ''Kane'' ''2023'' 39)
     = [''Kane'', ''ane'', ''ne'', ''e'']"
proof -
  have u: "unidecode sample_service ''Kane'' = ''Kane''" by code_simp
  have a: "list_all (nothing_found sample_service ''2023'' 39) [''Kane'', ''ane'', ''ne'', ''e'']"
    by code_simp
  have "list_all (nothing_found sample_service ''2023'' 39)
          (map (\<lambda>n. drop n ''Kane'') [0..<length ''Kane''])"
    by code_simp
  then have h: "\<forall>n<length (unidecode sample_service ''Kane'').
       nothing_found sample_service ''2023'' 39 (drop n (unidecode sample_service ''Kane''))"
    unfolding u all_suffixes_iff .
  have r: "requests (get_player_stats_from_api sample_service ''Kane'' ''2023'' 39)
     = [''Kane'', ''ane'', ''ne'', ''e'']" by code_simp
  from not_found_after_every_suffix[OF h] a r show ?thesis by simp
qed

text \<open>
  The query \<^verbatim>\<open>Gro\<close> followed by a sharp s has four characters.  It is transliterated to
  \<^verbatim>\<open>Gross\<close>, and the loop makes five passes before it gives up.
\<close>

theorem trimming_counts_transliterated_length:
  "length (''Gro'' @ [CHR 0xDF]) = 4 \<and>
   requests (get_player_stats_from_api sample_service (''Gro'' @ [CHR 0xDF]) ''2023'' 39)
     = [''Gross'', ''ross'', ''oss'', ''ss'', ''s''] \<and>
   returned (get_player_stats_from_api sample_service (''Gro'' @ [CHR 0xDF]) ''2023'' 39) = Inr PNone"
  by code_simp

section \<open>The search strings of a player lookup\<close>

text \<open>
  Claim C5.  A name of one word is meant to be searched as the surname alone.  The code
  joins the empty first name and the surname with a space, so the first search string of
  \<^verbatim>\<open>Ronaldo\<close> is \<^verbatim>\<open>" Ronaldo"\<close>, with a space in front; the surname alone is only the
  second string sent, after the loop has dropped that space.
\<close>

theorem single_word_search_has_leading_space:
  "take 2 (fst (get_player_stats empty_service ''Ronaldo'' ''2023'' ''Premier League''))
     = ['' Ronaldo'', ''Ronaldo'']"
  by code_simp

section \<open>The player record\<close>

text \<open>What a successful run of the normalizer has read, and the record it has built.\<close>

lemma normalize_player_InrD:
  assumes "normalize_player c = Inr out"
  shows "\<exists>player stats total_goals assists total_shots shots_on_target dribbles_attempts
      dribbles_success key_passes pass_accuracy duels_won tackles_total tackles_interceptions
      tackles_blocks fouls_drawn fouls_committed name photo team_logo nationality team_id.
    getitem c ''player'' = Inr player \<and>
    first_statistics c = Inr stats \<and>
    stat_field stats ''goals'' ''total'' = Inr total_goals \<and>
    stat_field stats ''goals'' ''assists'' = Inr assists \<and>
    stat_field stats ''shots'' ''total'' = Inr total_shots \<and>
    stat_field stats ''shots'' ''on'' = Inr shots_on_target \<and>
    stat_field stats ''dribbles'' ''attempts'' = Inr dribbles_attempts \<and>
    stat_field stats ''dribbles'' ''success'' = Inr dribbles_success \<and>
    stat_field stats ''passes'' ''key'' = Inr key_passes \<and>
    field_get stats ''passes'' ''accuracy'' = Inr pass_accuracy \<and>
    field_get stats ''duels'' ''won'' = Inr duels_won \<and>
    field_get stats ''tackles'' ''total'' = Inr tackles_total \<and>
    stat_field stats ''tackles'' ''interceptions'' = Inr tackles_interceptions \<and>
    stat_field stats ''tackles'' ''blocks'' = Inr tackles_blocks \<and>
    stat_field stats ''fouls'' ''drawn'' = Inr fouls_drawn \<and>
    stat_field stats ''fouls'' ''committed'' = Inr fouls_committed \<and>
    getitem player ''name'' = Inr name \<and>
    getitem player ''photo'' = Inr photo \<and>
    stat_field stats ''team'' ''logo'' = Inr team_logo \<and>
    getitem player ''nationality'' = Inr nationality \<and>
    stat_field stats ''team'' ''id'' = Inr team_id \<and>
    out = PDict
       [(PStr ''Player'', PDict
          [(PStr ''Name'', name),
           (PStr ''Photo'', photo),
           (PStr ''Team Logo'', team_logo),
           (PStr ''Nationality'', nationality),
           (PStr ''Team'', team_id)]),
        (PStr ''Stats'', PDict
          [(PStr ''Goals'', total_goals),
           (PStr ''Assists'', or_zero assists),
           (PStr ''Total Shots'', total_shots),
           (PStr ''Shots on Target'', shots_on_target),
           (PStr ''Dribble Attempts'', dribbles_attempts),
           (PStr ''Dribble Successes'', dribbles_success),
           (PStr ''Key Passes'', key_passes),
           (PStr ''Pass Success Rate'', or_zero pass_accuracy),
           (PStr ''Duels Won'', or_zero duels_won),
           (PStr ''Total Tackles'', or_zero tackles_total),
           (PStr ''Interceptions'', or_zero tackles_interceptions),
           (PStr ''Blocks'', or_zero tackles_blocks),
           (PStr ''Fouls Drawn'', or_zero fouls_drawn),
           (PStr ''Fouls Committed'', or_zero fouls_committed)])]"
  using assms unfolding normalize_player_def ebind_eq_Inr
  by (elim exE conjE) (intro exI conjI; assumption?; simp)

lemma normalize_player_has_statistics:
  assumes "normalize_player c = Inr out"
  shows "\<exists>stats. first_statistics c = Inr stats"
  using assms unfolding normalize_player_def ebind_eq_Inr by blast

lemma normalize_player_fields:
  assumes "normalize_player c = Inr out" and "first_statistics c = Inr stats0"
  shows "\<exists>kvs. getitem out ''Stats'' = Inr (PDict kvs) \<and> map fst kvs = map PStr statistic_names"
    and "\<forall>label\<in>set never_null_names. \<exists>v. stat out label = Inr v \<and> v \<noteq> PNone"
    and "\<forall>(label, path)\<in>set as_read_fields.
        \<exists>v. getpath stats0 path = Inr v \<and> stat out label = Inr v"
    and "\<forall>(label, path)\<in>set null_defaulted_fields.
        \<exists>v. getpath stats0 path = Inr v \<and> stat out label = Inr (or_zero v)"
    and "\<forall>(label, a, b)\<in>set get_defaulted_fields.
        \<exists>x v. getitem stats0 a = Inr x \<and> dict_get x b PNone = Inr v \<and>
            stat out label = Inr (or_zero v)"
proof -
  from normalize_player_InrD[OF assms(1)] obtain player stats total_goals assists total_shots
    shots_on_target dribbles_attempts
      dribbles_success key_passes pass_accuracy duels_won tackles_total tackles_interceptions
      tackles_blocks fouls_drawn fouls_committed name photo team_logo nationality team_id where
    r: "first_statistics c = Inr stats"
    "stat_field stats ''goals'' ''total'' = Inr total_goals"
    "stat_field stats ''goals'' ''assists'' = Inr assists"
    "stat_field stats ''shots'' ''total'' = Inr total_shots"
    "stat_field stats ''shots'' ''on'' = Inr shots_on_target"
    "stat_field stats ''dribbles'' ''attempts'' = Inr dribbles_attempts"
    "stat_field stats ''dribbles'' ''success'' = Inr dribbles_success"
    "stat_field stats ''passes'' ''key'' = Inr key_passes"
    "field_get stats ''passes'' ''accuracy'' = Inr pass_accuracy"
    "field_get stats ''duels'' ''won'' = Inr duels_won"
    "field_get stats ''tackles'' ''total'' = Inr tackles_total"
    "stat_field stats ''tackles'' ''interceptions'' = Inr tackles_interceptions"
    "stat_field stats ''tackles'' ''blocks'' = Inr tackles_blocks"
    "stat_field stats ''fouls'' ''drawn'' = Inr fouls_drawn"
    "stat_field stats ''fouls'' ''committed'' = Inr fouls_committed"
    and out: "out = PDict
       [(PStr ''Player'', PDict
          [(PStr ''Name'', name),
           (PStr ''Photo'', photo),
           (PStr ''Team Logo'', team_logo),
           (PStr ''Nationality'', nationality),
           (PStr ''Team'', team_id)]),
        (PStr ''Stats'', PDict
          [(PStr ''Goals'', total_goals),
           (PStr ''Assists'', or_zero assists),
           (PStr ''Total Shots'', total_shots),
           (PStr ''Shots on Target'', shots_on_target),
           (PStr ''Dribble Attempts'', dribbles_attempts),
           (PStr ''Dribble Successes'', dribbles_success),
           (PStr ''Key Passes'', key_passes),
           (PStr ''Pass Success Rate'', or_zero pass_accuracy),
           (PStr ''Duels Won'', or_zero duels_won),
           (PStr ''Total Tackles'', or_zero tackles_total),
           (PStr ''Interceptions'', or_zero tackles_interceptions),
           (PStr ''Blocks'', or_zero tackles_blocks),
           (PStr ''Fouls Drawn'', or_zero fouls_drawn),
           (PStr ''Fouls Committed'', or_zero fouls_committed)])]"
    by blast
  from r(1) assms(2) have eq: "stats = stats0" by simp
  show "\<exists>kvs. getitem out ''Stats'' = Inr (PDict kvs) \<and> map fst kvs = map PStr statistic_names"
    by (simp add: out dict_lookup_str statistic_names_def)
  show "\<forall>label\<in>set never_null_names. \<exists>v. stat out label = Inr v \<and> v \<noteq> PNone"
    by (simp add: never_null_names_def stat_def out dict_lookup_str or_zero_def)
  show "\<forall>(label, path)\<in>set as_read_fields.
        \<exists>v. getpath stats0 path = Inr v \<and> stat out label = Inr v"
    using r(2,4-8) unfolding eq
    by (simp add: as_read_fields_def undefaulted_fields_def stat_field_getpath stat_def out
        dict_lookup_str)
  show "\<forall>(label, path)\<in>set null_defaulted_fields.
        \<exists>v. getpath stats0 path = Inr v \<and> stat out label = Inr (or_zero v)"
    using r(3,12,14,15) unfolding eq
    by (simp add: null_defaulted_fields_def stat_field_getpath stat_def out dict_lookup_str)
  show "\<forall>(label, a, b)\<in>set get_defaulted_fields.
        \<exists>x v. getitem stats0 a = Inr x \<and> dict_get x b PNone = Inr v \<and>
            stat out label = Inr (or_zero v)"
    using r(9-11) unfolding eq
    by (auto simp: get_defaulted_fields_def field_get_def ebind_eq_Inr stat_def out dict_lookup_str)
qed

text \<open>
  The same facts with the stored value written out, for all five subscripted fields that
  pass through the test for \<^verbatim>\<open>None\<close> and for the three read with \<^verbatim>\<open>.get\<close>.
\<close>

lemma normalize_player_blocks:
  assumes "normalize_player c = Inr out" and "first_statistics c = Inr stats0"
  shows "\<exists>v. getpath stats0 [''tackles'', ''blocks''] = Inr v \<and>
           stat out ''Blocks'' = Inr (or_zero v)"
proof -
  from normalize_player_InrD[OF assms(1)] obtain player stats total_goals assists total_shots
    shots_on_target dribbles_attempts
      dribbles_success key_passes pass_accuracy duels_won tackles_total tackles_interceptions
      tackles_blocks fouls_drawn fouls_committed name photo team_logo nationality team_id where
    r: "first_statistics c = Inr stats"
    "stat_field stats ''tackles'' ''blocks'' = Inr tackles_blocks"
    and out: "out = PDict
       [(PStr ''Player'', PDict
          [(PStr ''Name'', name),
           (PStr ''Photo'', photo),
           (PStr ''Team Logo'', team_logo),
           (PStr ''Nationality'', nationality),
           (PStr ''Team'', team_id)]),
        (PStr ''Stats'', PDict
          [(PStr ''Goals'', total_goals),
           (PStr ''Assists'', or_zero assists),
           (PStr ''Total Shots'', total_shots),
           (PStr ''Shots on Target'', shots_on_target),
           (PStr ''Dribble Attempts'', dribbles_attempts),
           (PStr ''Dribble Successes'', dribbles_success),
           (PStr ''Key Passes'', key_passes),
           (PStr ''Pass Success Rate'', or_zero pass_accuracy),
           (PStr ''Duels Won'', or_zero duels_won),
           (PStr ''Total Tackles'', or_zero tackles_total),
           (PStr ''Interceptions'', or_zero tackles_interceptions),
           (PStr ''Blocks'', or_zero tackles_blocks),
           (PStr ''Fouls Drawn'', or_zero fouls_drawn),
           (PStr ''Fouls Committed'', or_zero fouls_committed)])]"
    by blast
  from r(1) assms(2) have eq: "stats = stats0" by simp
  show ?thesis
    using r(2) unfolding eq
    by (simp add: stat_field_getpath stat_def out dict_lookup_str)
qed

lemma or_zero_written_out: "or_zero v = (if v = PNone then PInt 0 else v)"
  by (simp add: or_zero_def)

lemma normalize_player_defaulted:
  assumes "normalize_player c = Inr out" and "first_statistics c = Inr stats"
  shows "\<forall>(label, path)\<in>set subscripted_defaulted_fields.
           \<exists>v. getpath stats path = Inr v \<and>
               stat out label = Inr (if v = PNone then PInt 0 else v)"
    and "\<forall>(label, a, b)\<in>set get_defaulted_fields.
           \<exists>x v. getitem stats a = Inr x \<and> dict_get x b PNone = Inr v \<and>
               stat out label = Inr (if v = PNone then PInt 0 else v)"
  using normalize_player_blocks[OF assms] normalize_player_fields(4,5)[OF assms]
  by (simp_all add: subscripted_defaulted_fields_def or_zero_written_out)

text \<open>The record has no key \<^verbatim>\<open>player\<close>.\<close>

lemma normalize_player_output_keys:
  assumes "normalize_player c = Inr out"
  shows "\<exists>p s. out = PDict [(PStr ''Player'', p), (PStr ''Stats'', s)]"
  using normalize_player_InrD[OF assms] by blast




text \<open>
  Claim C7.  Every record the normalizer returns has a \<^verbatim>\<open>"Stats"\<close> dict with exactly the
  fourteen statistic labels as its keys, and every label comes under one of three rules.
  Goals, the two shots fields, the two dribbles fields and the key passes carry what the
  source field holds, whatever it is: a null source value stays \<^verbatim>\<open>None\<close> in the record.
  Assists, interceptions, blocks and the two fouls fields carry the source value, and 0
  when the source value is null.  Pass success rate, duels won and total tackles carry
  the source value, and 0 when it is null or its key is missing.  The eight labels of the
  last two rules are therefore never \<^verbatim>\<open>None\<close>.
\<close>

theorem player_record_keys:
  assumes "normalize_player c = Inr out"
  shows "set (map fst as_read_fields @ map fst subscripted_defaulted_fields @
              map fst get_defaulted_fields) = set statistic_names \<and>
         (\<exists>stats kvs. first_statistics c = Inr stats \<and>
           getitem out ''Stats'' = Inr (PDict kvs) \<and>
           map fst kvs = map PStr statistic_names \<and>
           (\<forall>(label, path)\<in>set as_read_fields.
               \<exists>v. getpath stats path = Inr v \<and> stat out label = Inr v) \<and>
           (\<forall>(label, path)\<in>set subscripted_defaulted_fields.
               \<exists>v. getpath stats path = Inr v \<and>
                   stat out label = Inr (if v = PNone then PInt 0 else v)) \<and>
           (\<forall>(label, a, b)\<in>set get_defaulted_fields.
               \<exists>x v. getitem stats a = Inr x \<and> dict_get x b PNone = Inr v \<and>
                   stat out label = Inr (if v = PNone then PInt 0 else v)) \<and>
           (\<forall>label\<in>set never_null_names. \<exists>v. stat out label = Inr v \<and> v \<noteq> PNone))"
proof
  show "set (map fst as_read_fields @ map fst subscripted_defaulted_fields @
              map fst get_defaulted_fields) = set statistic_names"
    by (simp add: as_read_fields_def undefaulted_fields_def subscripted_defaulted_fields_def
        null_defaulted_fields_def get_defaulted_fields_def statistic_names_def insert_commute)
next
  from normalize_player_has_statistics[OF assms] obtain stats where
    s: "first_statistics c = Inr stats" by blast
  from normalize_player_fields(1)[OF assms s] obtain kvs where
    k: "getitem out ''Stats'' = Inr (PDict kvs)" "map fst kvs = map PStr statistic_names"
    by blast
  from s k normalize_player_fields(2,3)[OF assms s] normalize_player_defaulted[OF assms s]
  show "\<exists>stats kvs. first_statistics c = Inr stats \<and>
           getitem out ''Stats'' = Inr (PDict kvs) \<and>
           map fst kvs = map PStr statistic_names \<and>
           (\<forall>(label, path)\<in>set as_read_fields.
               \<exists>v. getpath stats path = Inr v \<and> stat out label = Inr v) \<and>
           (\<forall>(label, path)\<in>set subscripted_defaulted_fields.
               \<exists>v. getpath stats path = Inr v \<and>
                   stat out label = Inr (if v = PNone then PInt 0 else v)) \<and>
           (\<forall>(label, a, b)\<in>set get_defaulted_fields.
               \<exists>x v. getitem stats a = Inr x \<and> dict_get x b PNone = Inr v \<and>
                   stat out label = Inr (if v = PNone then PInt 0 else v)) \<and>
           (\<forall>label\<in>set never_null_names. \<exists>v. stat out label = Inr v \<and> v \<noteq> PNone)"
    by blast
qed

text \<open>
  The candidate with a null total of goals and a null \<^verbatim>\<open>fouls.drawn\<close>, no \<^verbatim>\<open>won\<close> key in
  \<^verbatim>\<open>duels\<close> and two blocks: its record keeps the null goals, has 0 fouls drawn, 0 duels
  won and 2 blocks.
\<close>

theorem player_record_keys_witness:
  "normalize_player goalless_candidate = Inr goalless_record \<and>
   (\<exists>stats. first_statistics goalless_candidate = Inr stats \<and>
      getpath stats [''goals'', ''total''] = Inr PNone \<and>
      getpath stats [''fouls'', ''drawn''] = Inr PNone \<and>
      getpath stats [''tackles'', ''blocks''] = Inr (PInt 2) \<and>
      getpath stats [''duels'', ''won''] = Inl KeyError) \<and>
   (\<exists>kvs. getitem goalless_record ''Stats'' = Inr (PDict kvs) \<and>
          map fst kvs = map PStr statistic_names) \<and>
   stat goalless_record ''Goals'' = Inr PNone \<and>
   stat goalless_record ''Fouls Drawn'' = Inr (PInt 0) \<and>
   stat goalless_record ''Blocks'' = Inr (PInt 2) \<and>
   stat goalless_record ''Duels Won'' = Inr (PInt 0)"
proof -
  have n: "normalize_player goalless_candidate = Inr goalless_record" by code_simp
  have "\<not> isl (first_statistics goalless_candidate)" by code_simp
  then obtain stats0 where s0: "first_statistics goalless_candidate = Inr stats0"
    by (cases "first_statistics goalless_candidate") simp_all
  have g0: "ebind (first_statistics goalless_candidate) (\<lambda>s. getpath s [''goals'', ''total''])
              = Inr PNone" by code_simp
  have f0: "ebind (first_statistics goalless_candidate) (\<lambda>s. getpath s [''fouls'', ''drawn''])
              = Inr PNone" by code_simp
  have b0: "ebind (first_statistics goalless_candidate) (\<lambda>s. getpath s [''tackles'', ''blocks''])
              = Inr (PInt 2)" by code_simp
  have d0: "ebind (first_statistics goalless_candidate) (\<lambda>s. getpath s [''duels'', ''won''])
              = Inl KeyError" by code_simp
  have d1: "ebind (first_statistics goalless_candidate) (\<lambda>s. getitem s ''duels'')
              = Inr (obj [(''total'', PInt 200)])" by code_simp
  have d2: "dict_get (obj [(''total'', PInt 200)]) ''won'' PNone = Inr PNone" by code_simp
  from player_record_keys[OF n] obtain stats kvs where
    r: "first_statistics goalless_candidate = Inr stats"
       "getitem goalless_record ''Stats'' = Inr (PDict kvs)"
       "map fst kvs = map PStr statistic_names"
       "\<forall>(label, path)\<in>set as_read_fields.
           \<exists>v. getpath stats path = Inr v \<and> stat goalless_record label = Inr v"
       "\<forall>(label, path)\<in>set subscripted_defaulted_fields.
           \<exists>v. getpath stats path = Inr v \<and>
               stat goalless_record label = Inr (if v = PNone then PInt 0 else v)"
       "\<forall>(label, a, b)\<in>set get_defaulted_fields.
           \<exists>x v. getitem stats a = Inr x \<and> dict_get x b PNone = Inr v \<and>
               stat goalless_record label = Inr (if v = PNone then PInt 0 else v)"
    by blast
  from g0 f0 b0 d0 d1 have p: "getpath stats [''goals'', ''total''] = Inr PNone"
    "getpath stats [''fouls'', ''drawn''] = Inr PNone"
    "getpath stats [''tackles'', ''blocks''] = Inr (PInt 2)"
    "getpath stats [''duels'', ''won''] = Inl KeyError"
    "getitem stats ''duels'' = Inr (obj [(''total'', PInt 200)])"
    unfolding r(1) by simp_all
  from r(4) p(1) have g: "stat goalless_record ''Goals'' = Inr PNone"
    by (simp add: as_read_fields_def)
  from r(5) p(2,3) have f: "stat goalless_record ''Fouls Drawn'' = Inr (PInt 0)"
    and b: "stat goalless_record ''Blocks'' = Inr (PInt 2)"
    by (simp_all add: subscripted_defaulted_fields_def null_defaulted_fields_def)
  from r(6) p(5) d2 have d: "stat goalless_record ''Duels Won'' = Inr (PInt 0)"
    by (simp add: get_defaulted_fields_def)
  from n r(1,2,3) p(1-4) g f b d show ?thesis by blast
qed

text \<open>
  A null total of goals is not replaced by 0: the record maps \<^verbatim>\<open>Goals\<close> to \<^verbatim>\<open>None\<close>,
  which is not a number.
\<close>

theorem goals_null_stays_null:
  "ebind (normalize_player goalless_candidate) (\<lambda>out. stat out ''Goals'') = Inr PNone"
  by code_simp

text \<open>
  Claim C9.  The normalizer is not idempotent.  A record it returns is a dict with the
  two keys \<^verbatim>\<open>Player\<close> and \<^verbatim>\<open>Stats\<close>; normalizing reads \<^verbatim>\<open>player_data['player']\<close> first, a
  key the record does not have.  So whenever a candidate is normalized to a record,
  normalizing that record raises a key error instead of returning the record again.
\<close>

theorem normalize_player_of_record_raises:
  assumes "normalize_player c = Inr out"
  shows "normalize_player out = Inl KeyError"
proof -
  from normalize_player_output_keys[OF assms] obtain p s where
    "out = PDict [(PStr ''Player'', p), (PStr ''Stats'', s)]" by blast
  then have "getitem out ''player'' = Inl KeyError"
    by (simp add: dict_lookup_str)
  then show ?thesis
    by (simp add: normalize_player_def)
qed

text \<open>The record of the candidate with a null total of goals is refused as a candidate.\<close>

theorem normalize_player_of_record_raises_witness:
  "normalize_player goalless_candidate = Inr goalless_record \<and>
   normalize_player goalless_record = Inl KeyError"
proof -
  have n: "normalize_player goalless_candidate = Inr goalless_record" by code_simp
  from normalize_player_of_record_raises[OF n] n show ?thesis by simp
qed

text \<open>
  Normalizing the usual candidate gives a record; normalizing twice, the second time on
  the output of the first, gives a key error.
\<close>

theorem normalize_player_not_idempotent:
  "\<not> isl (normalize_player usual_candidate) \<and>
   ebind (normalize_player usual_candidate) normalize_player = Inl KeyError \<and>
   ebind (normalize_player usual_candidate) normalize_player \<noteq> normalize_player usual_candidate"
  by code_simp

text \<open>
  Claim C10.  The normalizer takes every statistic from \<^verbatim>\<open>player_data['statistics'][0]\<close>.
  When the statistics list is \<open>s # rest\<close> and a record is returned, each of its fourteen
  statistics is the value of its field in \<open>s\<close>: as read for goals, shots, dribbles and key
  passes, with 0 for a null for assists, interceptions, blocks and fouls, and with 0 for a
  null or a missing key for pass success rate, duels won and total tackles.  Two
  candidates whose players have the same name, photo and nationality fields and whose
  statistics lists start with the same element normalize to the same result, whatever
  follows that element.  A candidate whose statistics list is empty has no record: the
  normalizer raises, and the exception is the index error of \<^verbatim>\<open>statistics[0]\<close> as soon as
  the candidate has a \<^verbatim>\<open>player\<close> key.
\<close>

theorem normalize_player_reads_first_statistics_only:
  "(getitem c ''statistics'' = Inr (PList (s # rest)) \<and> normalize_player c = Inr out
      \<longrightarrow> (\<forall>(label, path)\<in>set as_read_fields.
              \<exists>v. getpath s path = Inr v \<and> stat out label = Inr v) \<and>
          (\<forall>(label, path)\<in>set subscripted_defaulted_fields.
              \<exists>v. getpath s path = Inr v \<and>
                  stat out label = Inr (if v = PNone then PInt 0 else v)) \<and>
          (\<forall>(label, a, b)\<in>set get_defaulted_fields.
              \<exists>x v. getitem s a = Inr x \<and> dict_get x b PNone = Inr v \<and>
                  stat out label = Inr (if v = PNone then PInt 0 else v))) \<and>
   (getitem c1 ''player'' = Inr p1 \<and> getitem c2 ''player'' = Inr p2 \<and>
    getitem p1 ''name'' = getitem p2 ''name'' \<and>
    getitem p1 ''photo'' = getitem p2 ''photo'' \<and>
    getitem p1 ''nationality'' = getitem p2 ''nationality'' \<and>
    getitem c1 ''statistics'' = Inr (PList (s0 # rest1)) \<and>
    getitem c2 ''statistics'' = Inr (PList (s0 # rest2))
      \<longrightarrow> normalize_player c1 = normalize_player c2) \<and>
   (getitem c0 ''statistics'' = Inr (PList [])
      \<longrightarrow> (\<exists>e. normalize_player c0 = Inl e) \<and>
          (\<forall>p. getitem c0 ''player'' = Inr p \<longrightarrow> normalize_player c0 = Inl IndexError))"
proof (intro conjI impI allI)
  assume a: "getitem c1 ''player'' = Inr p1 \<and> getitem c2 ''player'' = Inr p2 \<and>
    getitem p1 ''name'' = getitem p2 ''name'' \<and>
    getitem p1 ''photo'' = getitem p2 ''photo'' \<and>
    getitem p1 ''nationality'' = getitem p2 ''nationality'' \<and>
    getitem c1 ''statistics'' = Inr (PList (s0 # rest1)) \<and>
    getitem c2 ''statistics'' = Inr (PList (s0 # rest2))"
  then have "first_statistics c1 = Inr s0" "first_statistics c2 = Inr s0"
    by (simp_all add: first_statistics_def)
  with a show "normalize_player c1 = normalize_player c2"
    unfolding normalize_player_def by simp
next
  assume e: "getitem c0 ''statistics'' = Inr (PList [])"
  then have f: "first_statistics c0 = Inl IndexError"
    by (simp add: first_statistics_def)
  then show "\<exists>e. normalize_player c0 = Inl e"
    by (cases "getitem c0 ''player''") (simp_all add: normalize_player_def)
  fix p assume "getitem c0 ''player'' = Inr p"
  with f show "normalize_player c0 = Inl IndexError"
    by (simp add: normalize_player_def)
next
  assume a: "getitem c ''statistics'' = Inr (PList (s # rest)) \<and> normalize_player c = Inr out"
  then have n: "normalize_player c = Inr out" and f: "first_statistics c = Inr s"
    by (simp_all add: first_statistics_def)
  show "\<forall>(label, path)\<in>set as_read_fields.
          \<exists>v. getpath s path = Inr v \<and> stat out label = Inr v"
    by (rule normalize_player_fields(3)[OF n f])
  show "\<forall>(label, path)\<in>set subscripted_defaulted_fields.
          \<exists>v. getpath s path = Inr v \<and>
              stat out label = Inr (if v = PNone then PInt 0 else v)"
    by (rule normalize_player_defaulted(1)[OF n f])
  show "\<forall>(label, a, b)\<in>set get_defaulted_fields.
          \<exists>x v. getitem s a = Inr x \<and> dict_get x b PNone = Inr v \<and>
              stat out label = Inr (if v = PNone then PInt 0 else v)"
    by (rule normalize_player_defaulted(2)[OF n f])
qed

text \<open>
  The candidate with two elements of statistics has 7 goals and null assists in the
  first and 1 goal and 1 assist in the second.  Its record has 7 goals and 0 assists, and
  is the record of the usual candidate, which has the first element only; the candidate
  with no element raises.
\<close>

theorem normalize_player_reads_first_statistics_only_witness:
  "getitem two_season_candidate ''statistics'' = Inr (PList [usual_statistics, second_statistics]) \<and>
   getitem usual_candidate ''statistics'' = Inr (PList [usual_statistics]) \<and>
   getpath usual_statistics [''goals'', ''total''] = Inr (PInt 7) \<and>
   getpath usual_statistics [''goals'', ''assists''] = Inr PNone \<and>
   getpath second_statistics [''goals'', ''total''] = Inr (PInt 1) \<and>
   getpath second_statistics [''goals'', ''assists''] = Inr (PInt 1) \<and>
   (\<exists>out. normalize_player two_season_candidate = Inr out \<and>
      stat out ''Goals'' = Inr (PInt 7) \<and>
      stat out ''Assists'' = Inr (PInt 0) \<and>
      stat out ''Duels Won'' = Inr (PInt 0)) \<and>
   normalize_player two_season_candidate = normalize_player usual_candidate \<and>
   getitem (sample_candidate []) ''statistics'' = Inr (PList []) \<and>
   normalize_player (sample_candidate []) = Inl IndexError"
proof -
  have a1: "getitem two_season_candidate ''player'' = Inr other_player" by code_simp
  have a2: "getitem usual_candidate ''player'' = Inr usual_player" by code_simp
  have a3: "getitem other_player ''name'' = getitem usual_player ''name''" by code_simp
  have a4: "getitem other_player ''photo'' = getitem usual_player ''photo''" by code_simp
  have a5: "getitem other_player ''nationality'' = getitem usual_player ''nationality''"
    by code_simp
  have a6: "getitem two_season_candidate ''statistics''
              = Inr (PList (usual_statistics # [second_statistics]))" by code_simp
  have a7: "getitem usual_candidate ''statistics'' = Inr (PList (usual_statistics # []))"
    by code_simp
  have b1: "getitem (sample_candidate []) ''statistics'' = Inr (PList [])" by code_simp
  have b2: "getitem (sample_candidate []) ''player'' = Inr usual_player" by code_simp
  have g1: "getpath usual_statistics [''goals'', ''total''] = Inr (PInt 7)" by code_simp
  have g2: "getpath usual_statistics [''goals'', ''assists''] = Inr PNone" by code_simp
  have g3: "getpath second_statistics [''goals'', ''total''] = Inr (PInt 1)" by code_simp
  have g4: "getpath second_statistics [''goals'', ''assists''] = Inr (PInt 1)" by code_simp
  have d1: "getitem usual_statistics ''duels'' = Inr (obj [(''total'', PInt 200)])" by code_simp
  have d2: "dict_get (obj [(''total'', PInt 200)]) ''won'' PNone = Inr PNone" by code_simp
  have "\<not> isl (normalize_player two_season_candidate)" by code_simp
  then obtain out where o: "normalize_player two_season_candidate = Inr out"
    by (cases "normalize_player two_season_candidate") simp_all
  note t = normalize_player_reads_first_statistics_only[where c = two_season_candidate
      and s = usual_statistics and rest = "[second_statistics]" and out = out
      and ?c1.0 = two_season_candidate and ?p1.0 = other_player
      and ?c2.0 = usual_candidate and ?p2.0 = usual_player
      and ?s0.0 = usual_statistics and ?rest1.0 = "[second_statistics]" and ?rest2.0 = "[]"
      and ?c0.0 = "sample_candidate []"]
  from t a6 o have r:
    "\<forall>(label, path)\<in>set as_read_fields.
        \<exists>v. getpath usual_statistics path = Inr v \<and> stat out label = Inr v"
    "\<forall>(label, path)\<in>set subscripted_defaulted_fields.
        \<exists>v. getpath usual_statistics path = Inr v \<and>
            stat out label = Inr (if v = PNone then PInt 0 else v)"
    "\<forall>(label, a, b)\<in>set get_defaulted_fields.
        \<exists>x v. getitem usual_statistics a = Inr x \<and> dict_get x b PNone = Inr v \<and>
            stat out label = Inr (if v = PNone then PInt 0 else v)"
    by blast+
  from r(1) g1 have s1: "stat out ''Goals'' = Inr (PInt 7)"
    by (simp add: as_read_fields_def)
  from r(2) g2 have s2: "stat out ''Assists'' = Inr (PInt 0)"
    by (simp add: subscripted_defaulted_fields_def null_defaulted_fields_def)
  from r(3) d1 d2 have s3: "stat out ''Duels Won'' = Inr (PInt 0)"
    by (simp add: get_defaulted_fields_def)
  from t a1 a2 a3 a4 a5 a6 a7 have e: "normalize_player two_season_candidate
      = normalize_player usual_candidate" by blast
  from t b1 b2 have f: "normalize_player (sample_candidate []) = Inl IndexError" by blast
  from o s1 s2 s3 have x: "\<exists>out. normalize_player two_season_candidate = Inr out \<and>
      stat out ''Goals'' = Inr (PInt 7) \<and>
      stat out ''Assists'' = Inr (PInt 0) \<and>
      stat out ''Duels Won'' = Inr (PInt 0)" by blast
  from a6 a7 g1 g2 g3 g4 x e f b1 show ?thesis by simp
qed

section \<open>The team record\<close>

text \<open>The loop over the lineups, as lookups in the dict it builds.\<close>

lemma lineup_loop_lookup:
  assumes "getitem stats ''lineups'' = Inr (PList ls)"
    and "length pairs = length ls"
    and "\<forall>i\<in>set idx. i < length ls \<and> lineup_pair (ls ! i) (pairs ! i)"
  shows "\<exists>info'. lineup_loop stats idx info = Inr info' \<and>
           (\<forall>k. dict_lookup info' k = dict_lookup (rev (map (\<lambda>i. pairs ! i) idx) @ info) k)"
  using assms(3)
proof (induction idx arbitrary: info)
  case Nil
  then show ?case by simp
next
  case (Cons i idx)
  obtain f t where p: "pairs ! i = (f, t)" by (cases "pairs ! i")
  from Cons.prems p have l: "i < length ls" "getitem (ls ! i) ''formation'' = Inr f"
    "hashable f" "getitem (ls ! i) ''played'' = Inr t"
    by (auto simp: lineup_pair_def)
  from Cons.IH[of "dict_set info f t"] Cons.prems
  obtain info' where i': "lineup_loop stats idx (dict_set info f t) = Inr info'"
    "\<forall>k. dict_lookup info' k = dict_lookup (rev (map (\<lambda>i. pairs ! i) idx) @ dict_set info f t) k"
    by auto
  have "lineup_loop stats (i # idx) info = Inr info'"
    using assms(1) l i' by simp
  moreover have "dict_lookup info' k = dict_lookup (rev (map (\<lambda>i. pairs ! i) (i # idx)) @ info) k"
    for k
    using i'(2) p
    by (simp add: dict_lookup_append dict_lookup_dict_set dict_lookup_Cons split: option.splits)
  ultimately show ?case by blast
qed

lemma lineups_lookup:
  assumes "getitem stats ''lineups'' = Inr (PList ls)"
    and "list_all2 lineup_pair ls pairs"
  shows "\<exists>info. lineups stats = Inr info \<and> (\<forall>k. dict_lookup info k = dict_lookup (rev pairs) k)"
proof -
  have len: "length pairs = length ls" using assms(2) by (simp add: list_all2_lengthD)
  have "\<forall>i\<in>set [0..<length ls]. i < length ls \<and> lineup_pair (ls ! i) (pairs ! i)"
    using assms(2) by (simp add: list_all2_conv_all_nth)
  from lineup_loop_lookup[OF assms(1) len this, of "[]"]
  obtain info where "lineup_loop stats [0..<length ls] [] = Inr info"
    "\<forall>k. dict_lookup info k = dict_lookup (rev (map (\<lambda>i. pairs ! i) [0..<length ls])) k"
    by auto
  moreover have "map (\<lambda>i. pairs ! i) [0..<length ls] = pairs"
    using len by (metis map_nth)
  ultimately show ?thesis using assms(1) by (simp add: lineups_def)
qed

lemma dict_lookup_rev_last_played: "dict_lookup (rev pairs) k = last_played pairs k"
  by (induction pairs k rule: last_played.induct)
     (simp_all add: dict_lookup_append dict_lookup_Cons split: option.splits)

lemma read_stats_keys:
  "read_stats stats ps = Inr flds \<Longrightarrow> map fst flds = map (\<lambda>p. PStr (fst p)) ps"
  by (induction ps arbitrary: flds) (auto simp: ebind_eq_Inr)

text \<open>The dict built by the loop is what the record holds under \<^verbatim>\<open>Stats\<close>, \<^verbatim>\<open>Lineups\<close>.\<close>

lemma team_record_lineups:
  assumes "team_record club_data = Inr out"
  shows "\<exists>info. lineups club_data = Inr info \<and>
           getpath out [''Stats'', ''Lineups''] = Inr (PDict info)"
proof -
  from assms obtain flds info club name logo where
    f: "read_stats club_data team_stat_paths = Inr flds" and
    i: "lineups club_data = Inr info" and
    out: "out = PDict [(PStr ''Club'', PDict [(PStr ''Name'', name), (PStr ''Logo'', logo)]),
        (PStr ''Stats'', PDict (flds @ [(PStr ''Lineups'', PDict info)]))]"
    by (auto simp: team_record_def ebind_eq_Inr)
  have "PStr ''Lineups'' \<notin> set (map fst flds)"
    unfolding read_stats_keys[OF f] by (simp add: team_stat_paths_def)
  then have "map_of flds (PStr ''Lineups'') = None"
    by (simp add: map_of_eq_None_iff)
  then show ?thesis using i out
    by (simp add: dict_lookup_str map_add_def)
qed

text \<open>
  Claim C6.  When every element of \<^verbatim>\<open>stats['lineups']\<close> has a formation and a count, the
  loop ends with a dict in which each formation is mapped to the count of its last
  occurrence in the list and no other key is bound: a later duplicate overwrites the
  earlier count, nothing is summed.  That dict is the \<^verbatim>\<open>Lineups\<close> entry of every team
  record built from the candidate.
\<close>

theorem lineups_last_write_wins:
  assumes "getitem stats ''lineups'' = Inr (PList ls)"
    and "list_all2 lineup_pair ls pairs"
  shows "\<exists>info. lineups stats = Inr info \<and>
           (\<forall>k. dict_lookup info k = last_played pairs k) \<and>
           (\<forall>out. team_record stats = Inr out \<longrightarrow>
                    getpath out [''Stats'', ''Lineups''] = Inr (PDict info))"
proof -
  from lineups_lookup[OF assms] obtain info where
    i: "lineups stats = Inr info" "\<forall>k. dict_lookup info k = dict_lookup (rev pairs) k"
    by blast
  have "getpath out [''Stats'', ''Lineups''] = Inr (PDict info)"
    if "team_record stats = Inr out" for out
    using team_record_lineups[OF that] i(1) by auto
  with i show ?thesis
    by (simp add: dict_lookup_rev_last_played)
qed

text \<open>
  The lineups \<^verbatim>\<open>4-3-3\<close> (10), \<^verbatim>\<open>4-4-2\<close> (5), \<^verbatim>\<open>4-3-3\<close> (3) are reduced to the dict
  \<^verbatim>\<open>{"4-3-3": 3, "4-4-2": 5}\<close>, which the team record holds.
\<close>

theorem lineups_last_write_wins_witness:
  "getitem sample_club ''lineups'' = Inr (PList sample_lineups) \<and>
   list_all2 lineup_pair sample_lineups sample_pairs \<and>
   lineups sample_club = Inr [(PStr ''4-3-3'', PInt 3), (PStr ''4-4-2'', PInt 5)] \<and>
   (\<exists>info. lineups sample_club = Inr info \<and>
      dict_lookup info (PStr ''4-3-3'') = Some (PInt 3) \<and>
      dict_lookup info (PStr ''4-4-2'') = Some (PInt 5) \<and>
      dict_lookup info (PStr ''3-5-2'') = None \<and>
      (\<exists>out. team_record sample_club = Inr out \<and>
             getpath out [''Stats'', ''Lineups''] = Inr (PDict info)))"
proof -
  have g: "getitem sample_club ''lineups'' = Inr (PList sample_lineups)"
    by code_simp
  have p: "list_all2 lineup_pair sample_lineups sample_pairs"
    by code_simp
  have l: "lineups sample_club = Inr [(PStr ''4-3-3'', PInt 3), (PStr ''4-4-2'', PInt 5)]"
    by code_simp
  have a: "last_played sample_pairs (PStr ''4-3-3'') = Some (PInt 3)" by code_simp
  have b: "last_played sample_pairs (PStr ''4-4-2'') = Some (PInt 5)" by code_simp
  have c: "last_played sample_pairs (PStr ''3-5-2'') = None" by code_simp
  have t: "\<not> isl (team_record sample_club)" by code_simp
  then obtain out where o: "team_record sample_club = Inr out"
    by (cases "team_record sample_club") simp_all
  from lineups_last_write_wins[OF g p] obtain info where
    i: "lineups sample_club = Inr info" "\<forall>k. dict_lookup info k = last_played sample_pairs k"
      "\<forall>out. team_record sample_club = Inr out \<longrightarrow>
          getpath out [''Stats'', ''Lineups''] = Inr (PDict info)"
    by blast
  from i a b c o have "lineups sample_club = Inr info \<and>
      dict_lookup info (PStr ''4-3-3'') = Some (PInt 3) \<and>
      dict_lookup info (PStr ''4-4-2'') = Some (PInt 5) \<and>
      dict_lookup info (PStr ''3-5-2'') = None \<and>
      (\<exists>out. team_record sample_club = Inr out \<and>
             getpath out [''Stats'', ''Lineups''] = Inr (PDict info))"
    by simp
  with g p l show ?thesis by blast
qed

text \<open>
  Claim C8.  When the statistics endpoint has no data for the club that was found,
  \<^verbatim>\<open>get_club_stats_from_api\<close> returns \<^verbatim>\<open>None\<close>, and \<^verbatim>\<open>get_team_stats\<close> is meant to
  answer with its "No stats found" message.  The code tests \<^verbatim>\<open>'team' not in club_data\<close>
  before it tests \<^verbatim>\<open>club_data is None\<close>, and the membership test on \<^verbatim>\<open>None\<close> raises
  a type error.
\<close>

theorem get_team_stats_no_data_raises:
  "get_team_stats empty_service ''Manchester United'' ''England'' ''2023'' ''Premier League''
     = Inl TypeError"
  by code_simp

end
